theory Spec2Isabelle
  imports Complex_Main
begin

section \<open>Evaluation metrics of the segmentation: Dice, Hausdorff-95, volume similarity\<close>

text \<open>
  A shallow embedding of \<^verbatim>\<open>eval/evaluation_metric.py\<close>. The module has two families of
  metric functions: \<^verbatim>\<open>getDSC\<close>, \<^verbatim>\<open>getHausdorff\<close> and \<^verbatim>\<open>getVS\<close> work on SimpleITK images,
  \<^verbatim>\<open>get_dice_score\<close>, \<^verbatim>\<open>get_hausdorff_distance\<close> and \<^verbatim>\<open>get_volumetric_symmetry\<close> on numpy
  label arrays.

  Conventions of the embedding:
  \<^item> label values and voxel counts are \<open>int\<close>; a numpy label array carries whether its
    dtype is unsigned, because the difference of two unsigned sums wraps around; no sum
    reaches \<open>2 ^ 63\<close>;
  \<^item> a Python float is a real number, an infinity or nan, and arithmetic on the numbers
    is exact;
  \<^item> a raised exception is \<open>Inl e\<close>, a returned value \<open>Inr v\<close>;
  \<^item> a \<^verbatim>\<open>dict\<close> is an association list in insertion order, which is the order in which
    Python iterates it;
  \<^item> the calls into SimpleITK, numpy and scipy are modelled by the behaviour of the
    function called, each under the name it has in the source; where releases of a
    library differ in what the module relies on, the behaviour is a parameter.
\<close>

subsection \<open>Python values, exceptions, dictionaries, loops\<close>

datatype error = ZeroDivisionError | ValueError | IndexError

text \<open>A float: a real number, an infinity, or nan.\<close>

datatype pyfloat = Finite real | PosInf | NegInf | NaN

text \<open>\<^verbatim>\<open>1.0 - x\<close>.\<close>

definition one_minus :: "pyfloat \<Rightarrow> pyfloat" where
  "one_minus x =
     (case x of Finite r \<Rightarrow> Finite (1 - r) | PosInf \<Rightarrow> NegInf | NegInf \<Rightarrow> PosInf | NaN \<Rightarrow> NaN)"

text \<open>What the metric dictionaries hold: \<^verbatim>\<open>None\<close>, a float, or the integer literal \<^verbatim>\<open>0\<close>.\<close>

datatype pyval = PyNone | PyFloat pyfloat | PyInt int

type_synonym dict = "(int \<times> pyval) list"

text \<open>\<^verbatim>\<open>d[k] = v\<close>: an existing key keeps its place, a new key goes last.\<close>

fun dict_set :: "dict \<Rightarrow> int \<Rightarrow> pyval \<Rightarrow> dict" where
  "dict_set [] k v = [(k, v)]"
| "dict_set ((k', v') # d) k v =
     (if k' = k then (k, v) # d else (k', v') # dict_set d k v)"

text \<open>\<^verbatim>\<open>for k in keys: body\<close>, where the body updates the state or raises.\<close>

fun for_each :: "'k list \<Rightarrow> ('k \<Rightarrow> 's \<Rightarrow> error + 's) \<Rightarrow> 's \<Rightarrow> error + 's" where
  "for_each [] body s = Inr s"
| "for_each (k # ks) body s =
     (case body k s of Inl e \<Rightarrow> Inl e | Inr s' \<Rightarrow> for_each ks body s')"

text \<open>The keys of the module's \<^verbatim>\<open>labels\<close> dictionary, in the order they are written.\<close>

definition labels_keys :: "int list" where
  "labels_keys = [0, 1, 2, 3, 4, 5, 6, 7, 8]"

text \<open>\<^verbatim>\<open>range(9)\<close>.\<close>

definition range9 :: "int list" where
  "range9 = map int [0..<9]"

subsection \<open>Images and arrays\<close>

text \<open>
  A SimpleITK image: its voxels in the order of \<^verbatim>\<open>GetArrayFromImage\<close> (slices \<open>z\<close>, rows
  \<open>y\<close>, columns \<open>x\<close>) and its physical-space transform (origin, spacing, direction
  cosines by rows).
\<close>

type_synonym vec3 = "real \<times> real \<times> real"

record image =
  pixels :: "int list list list"
  origin :: vec3
  spacing :: vec3
  direction :: "vec3 \<times> vec3 \<times> vec3"

text \<open>\<^verbatim>\<open>sitk.BinaryThreshold(img, lower, upper, inside, outside)\<close>.\<close>

definition BinaryThreshold :: "image \<Rightarrow> int \<Rightarrow> int \<Rightarrow> int \<Rightarrow> int \<Rightarrow> image" where
  "BinaryThreshold img lower upper inside outside =
     img\<lparr>pixels :=
       map (map (map (\<lambda>v. if lower \<le> v \<and> v \<le> upper then inside else outside)))
         (pixels img)\<rparr>"

text \<open>\<^verbatim>\<open>sitk.GetArrayFromImage(img).flatten()\<close>.\<close>

definition flatten :: "int list list list \<Rightarrow> int list" where
  "flatten a = concat (concat a)"

text \<open>\<^verbatim>\<open>StatisticsImageFilter\<close>: \<^verbatim>\<open>Execute(img)\<close> followed by \<^verbatim>\<open>GetSum()\<close>.\<close>

definition GetSum :: "image \<Rightarrow> int" where
  "GetSum img = sum_list (flatten (pixels img))"

text \<open>
  A one-dimensional numpy array of integer labels: its elements, and whether its dtype
  is an unsigned one (\<^verbatim>\<open>uint8\<close>, ...) or not.
\<close>

record label_array =
  is_unsigned :: bool
  elements :: "int list"

text \<open>\<^verbatim>\<open>np.where(x == k, x, 0)\<close>: the elements equal to \<open>k\<close> are kept, with the dtype.\<close>

definition where_eq :: "label_array \<Rightarrow> int \<Rightarrow> label_array" where
  "where_eq x k = x\<lparr>elements := map (\<lambda>v. if v = k then v else 0) (elements x)\<rparr>"

text \<open>
  \<^verbatim>\<open>np.sum(a) - np.sum(b)\<close>. The sum of an unsigned array is a \<^verbatim>\<open>uint64\<close>, and the
  difference of two of them wraps around modulo \<open>2 ^ 64\<close>. In every other case the
  difference is exact (\<^verbatim>\<open>int64\<close>, or \<^verbatim>\<open>float64\<close> when one sum only is unsigned).
\<close>

definition subtract_sums :: "label_array \<Rightarrow> label_array \<Rightarrow> int" where
  "subtract_sums a b =
     (if is_unsigned a \<and> is_unsigned b
      then (sum_list (elements a) - sum_list (elements b)) mod 2 ^ 64
      else sum_list (elements a) - sum_list (elements b))"

subsection \<open>Dice\<close>

text \<open>
  What \<^verbatim>\<open>scipy.spatial.distance.dice\<close> does with a zero denominator depends on the release
  of scipy, which the module does not fix. Up to scipy 0.19 the quotient is a division
  of Python floats and raises \<^verbatim>\<open>ZeroDivisionError\<close>, as the comment in the source says;
  from scipy 1.0 on it is a division of numpy values, which raises nothing and gives nan
  for \<open>0 / 0\<close> and an infinity otherwise.
\<close>

datatype zero_division = Raises | GivesNaN

text \<open>
  numpy's broadcasting of two vectors: element by element when the lengths agree, a
  vector of one element against every element of the other, \<^verbatim>\<open>ValueError\<close> otherwise.
\<close>

definition broadcast :: "int list \<Rightarrow> int list \<Rightarrow> error + (int \<times> int) list" where
  "broadcast u v =
     (if length u = length v then Inr (zip u v)
      else if length u = 1 then Inr (map (\<lambda>b. (hd u, b)) v)
      else if length v = 1 then Inr (map (\<lambda>a. (a, hd v)) u)
      else Inl ValueError)"

text \<open>
  \<^verbatim>\<open>scipy.spatial.distance.dice(u, v)\<close> on integer vectors:
  \<open>ntt = sum (u * v)\<close>, \<open>nft = sum ((1 - u) * v)\<close>, \<open>ntf = sum (u * (1 - v))\<close> and the
  result is \<open>(ntf + nft) / (2 * ntt + ntf + nft)\<close>. On vectors of zeros and ones these
  sums are the counts of the boolean definition. (On vectors of an unsigned dtype
  scipy 0.19 takes the bitwise complement for \<open>1 - u\<close>; for the vectors of this module,
  whose elements are 0 or one label, that gives the same zero denominators.)
\<close>

definition dice :: "zero_division \<Rightarrow> int list \<Rightarrow> int list \<Rightarrow> error + pyfloat" where
  "dice zd u v =
     (case broadcast u v of
        Inl e \<Rightarrow> Inl e
      | Inr uv \<Rightarrow>
          let ntt = (\<Sum>(a, b) \<leftarrow> uv. a * b);
              nft = (\<Sum>(a, b) \<leftarrow> uv. (1 - a) * b);
              ntf = (\<Sum>(a, b) \<leftarrow> uv. a * (1 - b))
          in if 2 * ntt + ntf + nft = 0
             then (case zd of
                     Raises \<Rightarrow> Inl ZeroDivisionError
                   | GivesNaN \<Rightarrow>
                       Inr (if ntf + nft = 0 then NaN else if 0 < ntf + nft then PosInf else NegInf))
             else Inr (Finite (real_of_int (ntf + nft) / real_of_int (2 * ntt + ntf + nft))))"

text \<open>The body of the loop of \<^verbatim>\<open>getDSC\<close>: \<^verbatim>\<open>try: dsc[k] = 1.0 - dice(..) except ZeroDivisionError: dsc[k] = None\<close>.\<close>

definition getDSC_body :: "zero_division \<Rightarrow> image \<Rightarrow> image \<Rightarrow> int \<Rightarrow> dict \<Rightarrow> error + dict" where
  "getDSC_body zd testImage resultImage k dsc =
     (let testArray = flatten (pixels (BinaryThreshold testImage k k 1 0));
          resultArray = flatten (pixels (BinaryThreshold resultImage k k 1 0))
      in case dice zd testArray resultArray of
           Inr d \<Rightarrow> Inr (dict_set dsc k (PyFloat (one_minus d)))
         | Inl ZeroDivisionError \<Rightarrow> Inr (dict_set dsc k PyNone)
         | Inl e \<Rightarrow> Inl e)"

definition getDSC :: "zero_division \<Rightarrow> image \<Rightarrow> image \<Rightarrow> error + dict" where
  "getDSC zd testImage resultImage =
     for_each labels_keys (getDSC_body zd testImage resultImage) []"

text \<open>\<^verbatim>\<open>get_dice_score\<close>: the same loop on label arrays; the handler stores \<^verbatim>\<open>0\<close>.\<close>

definition get_dice_score_body ::
  "zero_division \<Rightarrow> label_array \<Rightarrow> label_array \<Rightarrow> int \<Rightarrow> dict \<Rightarrow> error + dict" where
  "get_dice_score_body zd lab2d pred2d k dsc =
     (case dice zd (elements (where_eq lab2d k)) (elements (where_eq pred2d k)) of
        Inr d \<Rightarrow> Inr (dict_set dsc k (PyFloat (one_minus d)))
      | Inl ZeroDivisionError \<Rightarrow> Inr (dict_set dsc k (PyInt 0))
      | Inl e \<Rightarrow> Inl e)"

definition get_dice_score :: "zero_division \<Rightarrow> label_array \<Rightarrow> label_array \<Rightarrow> error + dict" where
  "get_dice_score zd lab2d pred2d =
     for_each range9 (get_dice_score_body zd lab2d pred2d) []"

subsection \<open>Volume similarity\<close>

text \<open>The \<^verbatim>\<open>if denominator > 0\<close> at the end of both volume-similarity loops.\<close>

definition vs_value :: "int \<Rightarrow> int \<Rightarrow> pyval" where
  "vs_value numerator denominator =
     (if denominator > 0
      then PyFloat (Finite (1 - real_of_int numerator / real_of_int denominator))
      else PyNone)"

definition getVS_body :: "image \<Rightarrow> image \<Rightarrow> int \<Rightarrow> dict \<Rightarrow> error + dict" where
  "getVS_body testImage resultImage k vs =
     (let testSum = GetSum (BinaryThreshold testImage k k 1 0);
          resultSum = GetSum (BinaryThreshold resultImage k k 1 0);
          numerator = \<bar>testSum - resultSum\<bar>;
          denominator = testSum + resultSum
      in Inr (dict_set vs k (vs_value numerator denominator)))"

definition getVS :: "image \<Rightarrow> image \<Rightarrow> error + dict" where
  "getVS testImage resultImage = for_each labels_keys (getVS_body testImage resultImage) []"

definition get_volumetric_symmetry_body ::
  "label_array \<Rightarrow> label_array \<Rightarrow> int \<Rightarrow> dict \<Rightarrow> error + dict" where
  "get_volumetric_symmetry_body lab2d pred2d k vs =
     (let gt_labels = where_eq lab2d k;
          pred_labels = where_eq pred2d k;
          numerator = \<bar>subtract_sums gt_labels pred_labels\<bar>;
          denominator = sum_list (elements gt_labels) + sum_list (elements pred_labels)
      in Inr (dict_set vs k (vs_value numerator denominator)))"

definition get_volumetric_symmetry :: "label_array \<Rightarrow> label_array \<Rightarrow> error + dict" where
  "get_volumetric_symmetry lab2d pred2d =
     for_each range9 (get_volumetric_symmetry_body lab2d pred2d) []"

subsection \<open>Boundary extraction\<close>

text \<open>The voxel at slice \<open>z\<close>, row \<open>y\<close>, column \<open>x\<close>, if the index lies inside the array.\<close>

definition voxel :: "int list list list \<Rightarrow> int \<Rightarrow> int \<Rightarrow> int \<Rightarrow> int option" where
  "voxel a z y x =
     (if 0 \<le> z \<and> z < int (length a) \<and> 0 \<le> y \<and> y < int (length (a ! nat z))
         \<and> 0 \<le> x \<and> x < int (length (a ! nat z ! nat y))
      then Some (a ! nat z ! nat y ! nat x) else None)"

text \<open>
  The structuring element of radius \<open>(rx, ry, rz)\<close>, as offsets \<open>(dz, dy, dx)\<close>: the whole
  box. SimpleITK's default kernel is the ball, and for the radius \<open>(1, 1, 0)\<close>, the only
  one the module passes, ITK's ball is the whole 3 by 3 box of the slice. (For a radius
  of 1 along all three axes the ball leaves out the corners of the box.)
\<close>

definition kernel_offsets :: "nat \<times> nat \<times> nat \<Rightarrow> (int \<times> int \<times> int) list" where
  "kernel_offsets radius =
     (case radius of (rx, ry, rz) \<Rightarrow>
        concat (map (\<lambda>dz. concat (map (\<lambda>dy. map (\<lambda>dx. (dz, dy, dx))
          [- int rx..int rx]) [- int ry..int ry])) [- int rz..int rz]))"

text \<open>
  One voxel of \<^verbatim>\<open>sitk.BinaryErode\<close> with foreground 1 and background 0: a foreground voxel
  stays foreground when the element, centred on it, meets foreground only; a position
  outside the image counts as foreground exactly when \<open>boundaryToForeground\<close> is set. A
  voxel that is not foreground is left as it is.
\<close>

definition erode_voxel ::
  "int list list list \<Rightarrow> nat \<times> nat \<times> nat \<Rightarrow> bool \<Rightarrow> int \<Rightarrow> int \<Rightarrow> int \<Rightarrow> int \<Rightarrow> int" where
  "erode_voxel a radius boundaryToForeground z y x v =
     (if v = 1
      then (if list_all (\<lambda>(dz, dy, dx).
                  case voxel a (z + dz) (y + dy) (x + dx) of
                    None \<Rightarrow> boundaryToForeground
                  | Some w \<Rightarrow> w = 1) (kernel_offsets radius)
            then 1 else 0)
      else v)"

text \<open>
  \<^verbatim>\<open>sitk.BinaryErode(img, radius)\<close>; the third argument is the filter's
  \<^verbatim>\<open>boundaryToForeground\<close>, which the module leaves at SimpleITK's default, true.
  The radius is given as SimpleITK takes it, \<open>(x, y, z)\<close>.
\<close>

definition BinaryErode :: "image \<Rightarrow> nat \<times> nat \<times> nat \<Rightarrow> bool \<Rightarrow> image" where
  "BinaryErode img radius boundaryToForeground =
     img\<lparr>pixels :=
       map (\<lambda>(z, s). map (\<lambda>(y, r). map (\<lambda>(x, v).
             erode_voxel (pixels img) radius boundaryToForeground (int z) (int y) (int x) v)
           (enumerate 0 r)) (enumerate 0 s)) (enumerate 0 (pixels img))\<rparr>"

text \<open>\<^verbatim>\<open>sitk.Subtract(a, b)\<close> on images of unsigned 8-bit voxels, which wrap around.\<close>

definition Subtract :: "image \<Rightarrow> image \<Rightarrow> image" where
  "Subtract a b =
     a\<lparr>pixels := map2 (map2 (map2 (\<lambda>p q. (p - q) mod 256))) (pixels a) (pixels b)\<rparr>"

text \<open>\<^verbatim>\<open>np.nonzero(a)\<close>: the indices \<open>(z, y, x)\<close> of the non-zero elements, in array order.\<close>

definition nonzero :: "int list list list \<Rightarrow> (nat \<times> nat \<times> nat) list" where
  "nonzero a =
     concat (map (\<lambda>(z, s). concat (map (\<lambda>(y, r). concat (map (\<lambda>(x, v).
         if v \<noteq> 0 then [(z, y, x)] else [])
       (enumerate 0 r))) (enumerate 0 s))) (enumerate 0 a))"

text \<open>\<^verbatim>\<open>np.transpose(np.flipud(np.nonzero(a)))\<close>: the same indices as rows \<open>(x, y, z)\<close>.\<close>

definition index_rows :: "int list list list \<Rightarrow> (int \<times> int \<times> int) list" where
  "index_rows a = map (\<lambda>(z, y, x). (int x, int y, int z)) (nonzero a)"

text \<open>
  \<^verbatim>\<open>img.TransformIndexToPhysicalPoint(index)\<close>:
  \<open>origin + direction * (spacing * index)\<close>, the product with \<open>spacing\<close> taken by
  component.
\<close>

definition TransformIndexToPhysicalPoint :: "image \<Rightarrow> int \<times> int \<times> int \<Rightarrow> vec3" where
  "TransformIndexToPhysicalPoint img index =
     (case (origin img, spacing img, direction img, index) of
        ((ox, oy, oz), (sx, sy, sz), ((d00, d01, d02), (d10, d11, d12), (d20, d21, d22)),
         (i, j, k)) \<Rightarrow>
          (ox + d00 * (sx * real_of_int i) + d01 * (sy * real_of_int j) + d02 * (sz * real_of_int k),
           oy + d10 * (sx * real_of_int i) + d11 * (sy * real_of_int j) + d12 * (sz * real_of_int k),
           oz + d20 * (sx * real_of_int i) + d21 * (sy * real_of_int j) + d22 * (sz * real_of_int k)))"

subsection \<open>Nearest neighbours and percentiles\<close>

text \<open>A numpy array of one, two or three dimensions.\<close>

datatype ndarray = Arr1 "real list" | Arr2 "real list list" | Arr3 "real list list list"

text \<open>
  numpy's view of a Python list of coordinate triples: \<open>n\<close> rows of 3 columns, and the
  one-dimensional array of shape \<open>(0,)\<close> for the empty list.
\<close>

definition asarray :: "vec3 list \<Rightarrow> ndarray" where
  "asarray pts = (if pts = [] then Arr1 [] else Arr2 (map (\<lambda>(x, y, z). [x, y, z]) pts))"

text \<open>The rows of a flat sequence, \<open>n\<close> elements each.\<close>

fun chop :: "nat \<Rightarrow> 'a list \<Rightarrow> 'a list list" where
  "chop 0 xs = []"
| "chop (Suc n) [] = []"
| "chop (Suc n) (x # xs) = take (Suc n) (x # xs) # chop (Suc n) (drop n xs)"

text \<open>
  \<^verbatim>\<open>np.reshape(x, [a, b, c])\<close> of an array given by its elements: \<^verbatim>\<open>ValueError\<close> unless
  there are \<open>a * b * c\<close> of them.
\<close>

definition reshape :: "int list \<Rightarrow> nat \<times> nat \<times> nat \<Rightarrow> error + ndarray" where
  "reshape x dims =
     (case dims of (a, b, c) \<Rightarrow>
        if length x = a * b * c
        then Inr (Arr3 (map (chop c) (chop (b * c) (map real_of_int x))))
        else Inl ValueError)"

text \<open>The Euclidean distance of two rows (\<open>p = 2\<close>).\<close>

definition euclidean :: "real list \<Rightarrow> real list \<Rightarrow> real" where
  "euclidean p q = sqrt (\<Sum>(a, b) \<leftarrow> zip p q. (a - b)\<^sup>2)"

text \<open>
  \<^verbatim>\<open>getDistancesFromAtoB(a, b)\<close>, which the module defines twice with the same body:
  \<^verbatim>\<open>KDTree(a, leafsize=100).query(b, k=1, eps=0, p=2)[0]\<close>. The tree takes a
  two-dimensional array of \<open>n\<close> points and raises \<^verbatim>\<open>ValueError\<close> on any other; the
  query takes points of the same dimension and returns, for each of them, the exact
  (\<open>eps = 0\<close>) distance to its nearest point of the tree.
\<close>

definition getDistancesFromAtoB :: "ndarray \<Rightarrow> ndarray \<Rightarrow> error + real list" where
  "getDistancesFromAtoB a b =
     (case a of
        Arr2 (p # ps) \<Rightarrow>
          (if list_all (\<lambda>r. length r = length p) ps
           then (case b of
                   Arr2 qs \<Rightarrow>
                     if list_all (\<lambda>q. length q = length p) qs
                     then Inr (map (\<lambda>q. Min (set (map (euclidean q) (p # ps)))) qs)
                     else Inl ValueError
                 | _ \<Rightarrow> Inl ValueError)
           else Inl ValueError)
      | _ \<Rightarrow> Inl ValueError)"

text \<open>
  \<^verbatim>\<open>np.percentile(d, q)\<close> with numpy's default linear interpolation between the order
  statistics around the position \<open>q / 100 * (n - 1)\<close>.
\<close>

definition percentile_value :: "real list \<Rightarrow> nat \<Rightarrow> real" where
  "percentile_value d q =
     (let s = sort d;
          n = length d;
          lo = (q * (n - 1)) div 100;
          hi = min (lo + 1) (n - 1);
          gamma = real ((q * (n - 1)) mod 100) / 100
      in s ! lo + gamma * (s ! hi - s ! lo))"

text \<open>An empty array has no order statistics: \<^verbatim>\<open>IndexError\<close>.\<close>

definition percentile :: "real list \<Rightarrow> nat \<Rightarrow> error + real" where
  "percentile d q = (if d = [] then Inl IndexError else Inr (percentile_value d q))"

subsection \<open>Hausdorff distance\<close>

text \<open>The last line of both Hausdorff loops: the larger of the two 95th percentiles.\<close>

definition max_percentile95 :: "real list \<Rightarrow> real list \<Rightarrow> error + real" where
  "max_percentile95 dTestToResult dResultToTest =
     (case percentile dTestToResult 95 of
        Inl e \<Rightarrow> Inl e
      | Inr p \<Rightarrow> (case percentile dResultToTest 95 of
                   Inl e \<Rightarrow> Inl e
                 | Inr p' \<Rightarrow> Inr (max p p')))"

definition getHausdorff_body :: "image \<Rightarrow> image \<Rightarrow> int \<Rightarrow> dict \<Rightarrow> error + dict" where
  "getHausdorff_body testImage resultImage k hd' =
     (let lTestImage = BinaryThreshold testImage k k 1 0;
          lResultImage = BinaryThreshold resultImage k k 1 0;
          lTestSum = GetSum lTestImage;
          lResultSum = GetSum lResultImage
      in if lTestSum = 0 \<or> lResultSum = 0 then Inr (dict_set hd' k PyNone)
         else
           let eTestImage = BinaryErode lTestImage (1, 1, 0) True;
               eResultImage = BinaryErode lResultImage (1, 1, 0) True;
               hTestImage = Subtract lTestImage eTestImage;
               hResultImage = Subtract lResultImage eResultImage;
               hTestArray = pixels hTestImage;
               hResultArray = pixels hResultImage;
               testCoordinates =
                 map (TransformIndexToPhysicalPoint testImage) (index_rows hTestArray);
               resultCoordinates =
                 map (TransformIndexToPhysicalPoint resultImage) (index_rows hResultArray)
           in case getDistancesFromAtoB (asarray testCoordinates) (asarray resultCoordinates) of
                Inl e \<Rightarrow> Inl e
              | Inr dTestToResult \<Rightarrow>
                  (case getDistancesFromAtoB (asarray resultCoordinates) (asarray testCoordinates) of
                     Inl e \<Rightarrow> Inl e
                   | Inr dResultToTest \<Rightarrow>
                       (case max_percentile95 dTestToResult dResultToTest of
                          Inl e \<Rightarrow> Inl e
                        | Inr h \<Rightarrow> Inr (dict_set hd' k (PyFloat (Finite h))))))"

definition getHausdorff :: "image \<Rightarrow> image \<Rightarrow> error + dict" where
  "getHausdorff testImage resultImage =
     for_each labels_keys (getHausdorff_body testImage resultImage) []"

text \<open>\<^verbatim>\<open>get_hausdorff_distance\<close>: no test for empty masks, no boundary, a fixed shape.\<close>

definition get_hausdorff_distance_body ::
  "label_array \<Rightarrow> label_array \<Rightarrow> int \<Rightarrow> dict \<Rightarrow> error + dict" where
  "get_hausdorff_distance_body lab2d pred2d k h_dist =
     (case reshape (elements (where_eq lab2d k)) (220, 220, 48) of
        Inl e \<Rightarrow> Inl e
      | Inr gt_val \<Rightarrow>
          (case reshape (elements (where_eq pred2d k)) (220, 220, 48) of
             Inl e \<Rightarrow> Inl e
           | Inr pred_val \<Rightarrow>
               (case getDistancesFromAtoB gt_val pred_val of
                  Inl e \<Rightarrow> Inl e
                | Inr dTestToResult \<Rightarrow>
                    (case getDistancesFromAtoB pred_val gt_val of
                       Inl e \<Rightarrow> Inl e
                     | Inr dResultToTest \<Rightarrow>
                         (case max_percentile95 dTestToResult dResultToTest of
                            Inl e \<Rightarrow> Inl e
                          | Inr h \<Rightarrow> Inr (dict_set h_dist k (PyFloat (Finite h))))))))"

definition get_hausdorff_distance :: "label_array \<Rightarrow> label_array \<Rightarrow> error + dict" where
  "get_hausdorff_distance lab2d pred2d =
     for_each range9 (get_hausdorff_distance_body lab2d pred2d) []"

subsection \<open>Notions used to state the properties\<close>

text \<open>The shape of a voxel array: the length of every row of every slice.\<close>

definition shape :: "int list list list \<Rightarrow> nat list list" where
  "shape a = map (map length) a"

text \<open>An array whose elements are all zero: an empty mask.\<close>

definition all_zero :: "int list \<Rightarrow> bool" where
  "all_zero xs = list_all (\<lambda>v. v = 0) xs"

text \<open>Two vectors whose lengths numpy broadcasts.\<close>

definition broadcasts :: "int list \<Rightarrow> int list \<Rightarrow> bool" where
  "broadcasts u v = (length u = length v \<or> length u = 1 \<or> length v = 1)"

text \<open>What a zero denominator with a zero numerator leaves of \<^verbatim>\<open>1.0 - dice(u, v)\<close>.\<close>

definition zero_by_zero :: "zero_division \<Rightarrow> error + pyfloat" where
  "zero_by_zero zd = (case zd of Raises \<Rightarrow> Inl ZeroDivisionError | GivesNaN \<Rightarrow> Inr NaN)"

text \<open>An entry that is a float with a real value.\<close>

definition is_number :: "pyval \<Rightarrow> bool" where
  "is_number v = (case v of PyFloat (Finite x) \<Rightarrow> True | _ \<Rightarrow> False)"

text \<open>Label arrays of a signed and of an unsigned dtype, for the concrete instances below.\<close>

definition int_array :: "int list \<Rightarrow> label_array" where
  "int_array xs = \<lparr>is_unsigned = False, elements = xs\<rparr>"

definition uint_array :: "int list \<Rightarrow> label_array" where
  "uint_array xs = \<lparr>is_unsigned = True, elements = xs\<rparr>"

text \<open>An image with the identity transform, for the concrete instances below.\<close>

definition unit_image :: "int list list list \<Rightarrow> image" where
  "unit_image a = \<lparr>pixels = a, origin = (0, 0, 0), spacing = (1, 1, 1),
     direction = ((1, 0, 0), (0, 1, 0), (0, 0, 1))\<rparr>"

subsection \<open>The steps of Hausdorff-95 as the specification words them\<close>

text \<open>The pixel at row \<open>y\<close>, column \<open>x\<close> of one slice, if the index lies inside the slice.\<close>

definition pixel :: "int list list \<Rightarrow> int \<Rightarrow> int \<Rightarrow> int option" where
  "pixel s y x =
     (if 0 \<le> y \<and> y < int (length s) \<and> 0 \<le> x \<and> x < int (length (s ! nat y))
      then Some (s ! nat y ! nat x) else None)"

text \<open>
  A pixel of a slice survives the erosion of the slice when the whole 3 by 3 window
  around it, as far as it lies inside the slice, belongs to the mask.
\<close>

definition survives :: "int list list \<Rightarrow> int \<Rightarrow> int \<Rightarrow> bool" where
  "survives s y x =
     list_all (\<lambda>(dy, dx). case pixel s (y + dy) (x + dx) of None \<Rightarrow> True | Some w \<Rightarrow> w = 1)
       [(- 1, - 1), (- 1, 0), (- 1, 1), (0, - 1), (0, 0), (0, 1), (1, - 1), (1, 0), (1, 1)]"

text \<open>The boundary of one slice: 1 where the mask is 1 and the erosion removed the pixel.\<close>

definition slice_boundary :: "int list list \<Rightarrow> int list list" where
  "slice_boundary s =
     map (\<lambda>(y, r). map (\<lambda>(x, v). if v = 1 \<and> \<not> survives s (int y) (int x) then 1 else 0)
       (enumerate 0 r)) (enumerate 0 s)"

text \<open>The binary mask of label \<open>k\<close>: 1 where the voxel is \<open>k\<close>, 0 elsewhere.\<close>

definition label_mask :: "int list list list \<Rightarrow> int \<Rightarrow> int list list list" where
  "label_mask a k = map (map (map (\<lambda>v. if v = k then 1 else 0))) a"

text \<open>
  The boundary voxels of a mask, as indices \<open>(x, y, z)\<close> in the order of the array: the
  voxels of the mask that the erosion of their own slice removes.
\<close>

definition boundary_voxels :: "int list list list \<Rightarrow> (int \<times> int \<times> int) list" where
  "boundary_voxels m =
     concat (map (\<lambda>z. concat (map (\<lambda>y. concat (map (\<lambda>x.
         if m ! z ! y ! x = 1 \<and> \<not> survives (m ! z) (int y) (int x)
         then [(int x, int y, int z)] else [])
       [0..<length (m ! z ! y)])) [0..<length (m ! z)])) [0..<length m])"

text \<open>\<open>physical = origin + direction \<cdot> (spacing \<odot> index)\<close>, in three steps.\<close>

definition scale_index :: "vec3 \<Rightarrow> int \<times> int \<times> int \<Rightarrow> vec3" where
  "scale_index s i =
     (fst s * real_of_int (fst i), fst (snd s) * real_of_int (fst (snd i)),
      snd (snd s) * real_of_int (snd (snd i)))"

definition dot3 :: "vec3 \<Rightarrow> vec3 \<Rightarrow> real" where
  "dot3 a b = fst a * fst b + fst (snd a) * fst (snd b) + snd (snd a) * snd (snd b)"

definition rotate :: "vec3 \<times> vec3 \<times> vec3 \<Rightarrow> vec3 \<Rightarrow> vec3" where
  "rotate d v = (dot3 (fst d) v, dot3 (fst (snd d)) v, dot3 (snd (snd d)) v)"

definition physical_point :: "image \<Rightarrow> int \<times> int \<times> int \<Rightarrow> vec3" where
  "physical_point img i =
     (let v = rotate (direction img) (scale_index (spacing img) i)
      in (fst (origin img) + fst v, fst (snd (origin img)) + fst (snd v),
          snd (snd (origin img)) + snd (snd v)))"

text \<open>The boundary points of label \<open>k\<close> in physical coordinates.\<close>

definition boundary_points :: "image \<Rightarrow> int \<Rightarrow> vec3 list" where
  "boundary_points img k =
     map (physical_point img) (boundary_voxels (label_mask (pixels img) k))"

definition distance3 :: "vec3 \<Rightarrow> vec3 \<Rightarrow> real" where
  "distance3 p q =
     (case (p, q) of ((x, y, z), (x', y', z')) \<Rightarrow> sqrt ((x - x')\<^sup>2 + (y - y')\<^sup>2 + (z - z')\<^sup>2))"

text \<open>For every point of \<open>B\<close>, its distance to the nearest point of \<open>A\<close>.\<close>

definition directed_distances :: "vec3 list \<Rightarrow> vec3 list \<Rightarrow> real list" where
  "directed_distances A B = map (\<lambda>q. Min (set (map (distance3 q) A))) B"

text \<open>
  The \<open>q\<close>-th percentile by linear interpolation between the two order statistics
  around the position \<open>q / 100 * (n - 1)\<close>.
\<close>

definition interpolated_percentile :: "real list \<Rightarrow> real \<Rightarrow> real" where
  "interpolated_percentile d q =
     (let s = sort d;
          pos = q / 100 * (real (length d) - 1)
      in s ! nat \<lfloor>pos\<rfloor> + (pos - real_of_int \<lfloor>pos\<rfloor>) * (s ! nat \<lceil>pos\<rceil> - s ! nat \<lfloor>pos\<rfloor>))"

text \<open>An image with a transform that is not the identity, for the concrete instances below.\<close>

definition skew_image :: "int list list list \<Rightarrow> image" where
  "skew_image a = \<lparr>pixels = a, origin = (10, 20, 30), spacing = (2, 3, 5),
     direction = ((0, 1, 0), (- 1, 0, 0), (0, 0, 1))\<rparr>"

section \<open>Properties\<close>

subsection \<open>Dictionaries and loops\<close>

lemma dict_set_fresh: "k \<notin> fst ` set d \<Longrightarrow> dict_set d k v = d @ [(k, v)]"
  by (induction d) auto

lemma for_each_dict_set:
  assumes "\<And>k s. k \<in> set ks \<Longrightarrow> body k s = Inr (dict_set s k (f k))"
    and "distinct ks" and "set ks \<inter> fst ` set d = {}"
  shows "for_each ks body d = Inr (d @ map (\<lambda>k. (k, f k)) ks)"
  using assms
proof (induction ks arbitrary: d)
  case Nil
  then show ?case by simp
next
  case (Cons k ks)
  have fresh: "k \<notin> fst ` set d" using Cons.prems(3) by auto
  have step: "body k d = Inr (d @ [(k, f k)])"
    using Cons.prems(1) [of k d] fresh by (simp add: dict_set_fresh)
  have "for_each ks body (d @ [(k, f k)]) = Inr ((d @ [(k, f k)]) @ map (\<lambda>k. (k, f k)) ks)"
  proof (rule Cons.IH)
    show "\<And>k' s. k' \<in> set ks \<Longrightarrow> body k' s = Inr (dict_set s k' (f k'))"
      using Cons.prems(1) by simp
    show "distinct ks" using Cons.prems(2) by simp
    show "set ks \<inter> fst ` set (d @ [(k, f k)]) = {}"
      using Cons.prems(2,3) by auto
  qed
  then show ?case using step by simp
qed

lemma range9_eq: "range9 = [0, 1, 2, 3, 4, 5, 6, 7, 8]"
  by (simp add: range9_def upt_rec)

lemma distinct_labels_keys: "distinct labels_keys"
  by (simp add: labels_keys_def)

lemma distinct_range9: "distinct range9"
  by (simp add: range9_eq)

lemma flatten_map3: "flatten (map (map (map f)) a) = map f (flatten a)"
  by (simp add: flatten_def map_concat)

lemma length_flatten: "length (flatten c) = sum_list (map sum_list (shape c))"
  by (induction c) (simp_all add: flatten_def shape_def length_concat comp_def)

lemma length_flatten_shape:
  "shape a = shape b \<Longrightarrow> length (flatten a) = length (flatten b)"
  by (simp add: length_flatten)

lemma pixels_BinaryThreshold:
  "flatten (pixels (BinaryThreshold img lo hi a b)) =
     map (\<lambda>v. if lo \<le> v \<and> v \<le> hi then a else b) (flatten (pixels img))"
  by (simp add: BinaryThreshold_def flatten_map3)

lemma getVS_eq:
  "getVS t r = Inr (map (\<lambda>k. (k, vs_value \<bar>GetSum (BinaryThreshold t k k 1 0) - GetSum (BinaryThreshold r k k 1 0)\<bar>
       (GetSum (BinaryThreshold t k k 1 0) + GetSum (BinaryThreshold r k k 1 0)))) labels_keys)"
  unfolding getVS_def
  using for_each_dict_set [where d = "[]" and ks = labels_keys and body = "getVS_body t r"]
  by (simp add: getVS_body_def Let_def distinct_labels_keys)

lemma get_volumetric_symmetry_eq:
  "get_volumetric_symmetry lab pred =
     Inr (map (\<lambda>k. (k, vs_value \<bar>subtract_sums (where_eq lab k) (where_eq pred k)\<bar>
       (sum_list (elements (where_eq lab k)) + sum_list (elements (where_eq pred k))))) range9)"
  unfolding get_volumetric_symmetry_def
  using for_each_dict_set [where d = "[]" and ks = range9 and body = "get_volumetric_symmetry_body lab pred"]
  by (simp add: get_volumetric_symmetry_body_def Let_def distinct_range9)

lemma broadcast_same_length: "length u = length v \<Longrightarrow> broadcast u v = Inr (zip u v)"
  by (simp add: broadcast_def)

lemma broadcast_cases:
  "broadcasts u v \<Longrightarrow> \<exists>uv. broadcast u v = Inr uv"
  "\<not> broadcasts u v \<Longrightarrow> broadcast u v = Inl ValueError"
  by (auto simp: broadcast_def broadcasts_def)

lemma dice_error:
  "dice zd u v = Inl e \<Longrightarrow>
     (e = ValueError \<and> \<not> broadcasts u v) \<or> (e = ZeroDivisionError \<and> broadcasts u v \<and> zd = Raises)"
  by (cases "broadcasts u v"; cases zd)
     (auto simp: dice_def Let_def dest: broadcast_cases split: if_splits)

lemma dice_not_broadcast: "\<not> broadcasts u v \<Longrightarrow> dice zd u v = Inl ValueError"
  by (simp add: dice_def broadcast_cases)

lemma length_where_eq [simp]: "length (elements (where_eq x k)) = length (elements x)"
  by (simp add: where_eq_def)

lemma broadcasts_where_eq [simp]:
  "broadcasts (elements (where_eq x k)) (elements (where_eq y k)) = broadcasts (elements x) (elements y)"
  by (simp add: broadcasts_def)

lemma get_dice_score_eq:
  assumes "broadcasts (elements lab) (elements pred)"
  shows "get_dice_score zd lab pred =
     Inr (map (\<lambda>k. (k, case dice zd (elements (where_eq lab k)) (elements (where_eq pred k)) of
       Inr d \<Rightarrow> PyFloat (one_minus d) | Inl e \<Rightarrow> PyInt 0)) range9)"
  unfolding get_dice_score_def
proof (rule for_each_dict_set [where d = "[]", simplified])
  fix k s
  show "get_dice_score_body zd lab pred k s =
      Inr (dict_set s k (case dice zd (elements (where_eq lab k)) (elements (where_eq pred k)) of
       Inr d \<Rightarrow> PyFloat (one_minus d) | Inl e \<Rightarrow> PyInt 0))"
    using assms dice_error [of zd "elements (where_eq lab k)" "elements (where_eq pred k)"]
    by (auto simp: get_dice_score_body_def split: sum.splits error.splits)
qed (rule distinct_range9)

lemma get_dice_score_not_broadcast:
  assumes "\<not> broadcasts (elements lab) (elements pred)"
  shows "get_dice_score zd lab pred = Inl ValueError"
  using assms
  by (simp add: get_dice_score_def range9_eq get_dice_score_body_def dice_not_broadcast)

lemma getDSC_eq:
  assumes "shape (pixels t) = shape (pixels r)"
  shows "getDSC zd t r =
     Inr (map (\<lambda>k. (k, case dice zd (flatten (pixels (BinaryThreshold t k k 1 0)))
                            (flatten (pixels (BinaryThreshold r k k 1 0))) of
       Inr d \<Rightarrow> PyFloat (one_minus d) | Inl e \<Rightarrow> PyNone)) labels_keys)"
  unfolding getDSC_def
proof (rule for_each_dict_set [where d = "[]", simplified])
  fix k s
  have "length (flatten (pixels (BinaryThreshold t k k 1 0))) = length (flatten (pixels (BinaryThreshold r k k 1 0)))"
    using length_flatten_shape [OF assms] by (simp add: pixels_BinaryThreshold)
  then have "broadcasts (flatten (pixels (BinaryThreshold t k k 1 0))) (flatten (pixels (BinaryThreshold r k k 1 0)))"
    by (simp add: broadcasts_def)
  then show "getDSC_body zd t r k s =
      Inr (dict_set s k (case dice zd (flatten (pixels (BinaryThreshold t k k 1 0)))
                            (flatten (pixels (BinaryThreshold r k k 1 0))) of
       Inr d \<Rightarrow> PyFloat (one_minus d) | Inl e \<Rightarrow> PyNone))"
    using dice_error [of zd "flatten (pixels (BinaryThreshold t k k 1 0))" "flatten (pixels (BinaryThreshold r k k 1 0))"]
    by (auto simp: getDSC_body_def Let_def split: sum.splits error.splits)
qed (rule distinct_labels_keys)

lemma map_of_keys:
  "map_of (map (\<lambda>k. (k, f k)) ks) k = (if k \<in> set ks then Some (f k) else None)"
  by (simp add: map_of_map_restrict restrict_map_def)

lemma list_all_keys:
  "list_all (\<lambda>(k, v). P k v) (map (\<lambda>k. (k, f k)) ks) = list_all (\<lambda>k. P k (f k)) ks"
  by (simp add: list_all_iff)

lemma map_fst_keys: "map fst (map (\<lambda>k. (k, f k)) ks) = ks"
  by (simp add: comp_def)

subsection \<open>Sums, counts and the denominator of Dice\<close>

lemma sum_list_kept:
  "sum_list (map (\<lambda>v. if v = k then v else 0) xs) = k * int (count_list xs k)"
  by (induction xs) (auto simp: algebra_simps)

lemma sum_list_where_eq:
  "sum_list (elements (where_eq x k)) = k * int (count_list (elements x) k)"
  by (simp add: where_eq_def sum_list_kept)

lemma sum_list_indicator:
  "sum_list (map (\<lambda>v. if k \<le> v \<and> v \<le> k then 1 else 0) xs) = int (count_list xs (k::int))"
  by (induction xs) auto

lemma GetSum_BinaryThreshold:
  "GetSum (BinaryThreshold img k k 1 0) = int (count_list (flatten (pixels img)) k)"
  by (simp add: GetSum_def pixels_BinaryThreshold sum_list_indicator)

lemma where_eq_zero: "elements (where_eq x 0) = replicate (length (elements x)) 0"
proof -
  have "map (\<lambda>v. if v = 0 then v else 0) xs = replicate (length xs) (0::int)" for xs
    by (induction xs) auto
  then show ?thesis by (simp add: where_eq_def)
qed

lemma all_zero_iff: "all_zero xs \<longleftrightarrow> xs = replicate (length xs) 0"
  by (induction xs) (auto simp: all_zero_def)

lemma all_zero_sum:
  "list_all (\<lambda>v. 0 \<le> v) xs \<Longrightarrow> all_zero xs \<longleftrightarrow> sum_list xs = 0"
proof (induction xs)
  case Nil
  then show ?case by (simp add: all_zero_def)
next
  case (Cons a xs)
  have "0 \<le> sum_list xs" using Cons.prems by (auto intro: sum_list_nonneg simp: list_all_iff)
  then show ?case using Cons by (auto simp: all_zero_def)
qed
lemma mask_nonneg: "list_all (\<lambda>v. 0 \<le> v) (flatten (pixels (BinaryThreshold img k k 1 0)))"
  by (auto simp: pixels_BinaryThreshold list_all_iff)

lemma both_zero_sum:
  assumes "list_all (\<lambda>v. 0 \<le> v) xs" "list_all (\<lambda>v. 0 \<le> v) ys"
  shows "all_zero xs \<and> all_zero ys \<longleftrightarrow> sum_list xs + sum_list ys = 0"
proof -
  have "0 \<le> sum_list xs" "0 \<le> sum_list ys"
    using assms by (auto intro: sum_list_nonneg simp: list_all_iff)
  then show ?thesis using all_zero_sum [OF assms(1)] all_zero_sum [OF assms(2)] by auto
qed

lemma all_zero_where_eq_zero: "all_zero (elements (where_eq x 0))"
  by (simp add: where_eq_zero all_zero_def list_all_iff)

lemma where_eq_nonneg: "0 \<le> k \<Longrightarrow> list_all (\<lambda>v. 0 \<le> v) (elements (where_eq x k))"
  by (auto simp: where_eq_def list_all_iff)

lemma all_zero_where_eq: "k \<noteq> 0 \<Longrightarrow> all_zero (elements (where_eq x k)) \<longleftrightarrow> k \<notin> set (elements x)"
  by (auto simp: where_eq_def all_zero_def list_all_iff)

lemma all_zero_mask:
  "all_zero (flatten (pixels (BinaryThreshold img k k 1 0))) \<longleftrightarrow> k \<notin> set (flatten (pixels img))"
proof -
  have "all_zero (map (\<lambda>v. if k \<le> v \<and> v \<le> k then 1 else 0) xs) \<longleftrightarrow> k \<notin> set xs"
    for xs :: "int list"
    by (induction xs) (auto simp: all_zero_def)
  then show ?thesis by (simp add: pixels_BinaryThreshold)
qed

lemma pairs_denominator:
  "2 * (\<Sum>(a, b) \<leftarrow> uv. a * b) + (\<Sum>(a, b) \<leftarrow> uv. a * (1 - b)) + (\<Sum>(a, b) \<leftarrow> uv. (1 - a) * b)
     = (\<Sum>(a, b) \<leftarrow> uv. a + (b::int))"
  by (induction uv) (auto simp: algebra_simps)

lemma pairs_zip_sum:
  "length u = length v \<Longrightarrow> (\<Sum>(a, b) \<leftarrow> zip u v. a + b) = sum_list u + sum_list (v::int list)"
  by (induction u v rule: list_induct2) auto

lemma pairs_all_zero:
  assumes "list_all (\<lambda>(a, b). a = 0 \<and> b = 0) uv"
  shows "(\<Sum>(a, b) \<leftarrow> uv. a * b) = (0::int)"
    and "(\<Sum>(a, b) \<leftarrow> uv. a * (1 - b)) = (0::int)"
    and "(\<Sum>(a, b) \<leftarrow> uv. (1 - a) * b) = (0::int)"
  using assms by (induction uv) auto

lemma broadcast_all_zero:
  assumes "broadcast u v = Inr uv" "all_zero u" "all_zero v"
  shows "list_all (\<lambda>(a, b). a = 0 \<and> b = 0) uv"
proof -
  have hd0: "length w = 1 \<Longrightarrow> all_zero w \<Longrightarrow> hd w = 0" for w :: "int list"
    by (cases w) (auto simp: all_zero_def)
  have z: "list_all (\<lambda>(a, b). a = 0 \<and> b = 0) (zip u v)"
    using assms(2,3) by (auto simp: all_zero_def list_all_iff dest: set_zip_leftD set_zip_rightD)
  show ?thesis
    using assms z hd0 [of u] hd0 [of v]
    by (auto simp: broadcast_def all_zero_def list_all_iff split: if_splits)
qed

lemma dice_zeros:
  assumes "broadcasts u v" "all_zero u" "all_zero v"
  shows "dice zd u v = zero_by_zero zd"
proof -
  obtain uv where uv: "broadcast u v = Inr uv" using broadcast_cases(1) [OF assms(1)] by blast
  note z = pairs_all_zero [OF broadcast_all_zero [OF uv assms(2,3)]]
  show ?thesis
    by (simp add: dice_def uv z zero_by_zero_def)
qed

lemma dice_same_length:
  assumes "length u = length v" "list_all (\<lambda>x. 0 \<le> x) u" "list_all (\<lambda>x. 0 \<le> x) v"
  shows "dice zd u v =
     (if all_zero u \<and> all_zero v then zero_by_zero zd
      else Inr (Finite (real_of_int ((\<Sum>(a, b) \<leftarrow> zip u v. a * (1 - b)) + (\<Sum>(a, b) \<leftarrow> zip u v. (1 - a) * b))
                 / real_of_int (sum_list u + sum_list v))))"
proof (cases "all_zero u \<and> all_zero v")
  case True
  then show ?thesis
    using dice_zeros [of u v zd] assms(1) by (simp add: broadcasts_def)
next
  case False
  then have "sum_list u + sum_list v \<noteq> 0"
    using both_zero_sum [OF assms(2,3)] by simp
  then have "dice zd u v =
      Inr (Finite (real_of_int ((\<Sum>(a, b) \<leftarrow> zip u v. a * (1 - b)) + (\<Sum>(a, b) \<leftarrow> zip u v. (1 - a) * b))
                 / real_of_int (sum_list u + sum_list v)))"
    using pairs_denominator [of "zip u v"] pairs_zip_sum [OF assms(1)]
    by (simp add: dice_def broadcast_same_length [OF assms(1)] Let_def)
  then show ?thesis using False by (simp only: if_False)
qed

lemma entry_dice:
  assumes "length u = length v" "list_all (\<lambda>x. 0 \<le> x) u" "list_all (\<lambda>x. 0 \<le> x) v"
  shows "(if all_zero u \<and> all_zero v
          then (case dice zd u v of Inr d \<Rightarrow> PyFloat (one_minus d) | Inl e \<Rightarrow> w)
                 = (case zd of Raises \<Rightarrow> w | GivesNaN \<Rightarrow> PyFloat NaN)
          else is_number (case dice zd u v of Inr d \<Rightarrow> PyFloat (one_minus d) | Inl e \<Rightarrow> w))"
  unfolding dice_same_length [OF assms]
  by (cases zd) (simp_all add: is_number_def zero_by_zero_def one_minus_def)

lemma entry_vs:
  assumes "list_all (\<lambda>x. 0 \<le> x) u" "list_all (\<lambda>x. 0 \<le> x) v"
  shows "(if all_zero u \<and> all_zero v
          then vs_value n (sum_list u + sum_list v) = PyNone
          else is_number (vs_value n (sum_list u + sum_list v)))"
proof -
  have "0 \<le> sum_list u" "0 \<le> sum_list v"
    using assms by (auto intro: sum_list_nonneg simp: list_all_iff)
  then show ?thesis
    unfolding both_zero_sum [OF assms] by (auto simp: vs_value_def is_number_def)
qed

lemma is_unsigned_where_eq [simp]: "is_unsigned (where_eq x k) = is_unsigned x"
  by (simp add: where_eq_def)

subsection \<open>The array variants on the background label\<close>

text \<open>
  Claim C9, as stated, has \<^verbatim>\<open>get_dice_score\<close> map label 0 to the number 0 for every pair
  of input arrays. Two arrays of 2 and of 3 elements do not broadcast and the function
  raises \<^verbatim>\<open>ValueError\<close>; and with a scipy whose \<^verbatim>\<open>dice\<close> gives nan for \<open>0 / 0\<close> the handler
  never runs and the entry of label 0 is nan.
\<close>

theorem background_dice_counterexample:
  "get_dice_score Raises (int_array [0, 0]) (int_array [0, 0, 0]) = Inl ValueError
 \<and> get_dice_score GivesNaN (int_array [0]) (int_array [0]) =
     Inr [(0, PyFloat NaN), (1, PyFloat NaN), (2, PyFloat NaN), (3, PyFloat NaN),
          (4, PyFloat NaN), (5, PyFloat NaN), (6, PyFloat NaN), (7, PyFloat NaN),
          (8, PyFloat NaN)]"
  by (simp add: get_dice_score_def range9_eq get_dice_score_body_def dice_def broadcast_def
      where_eq_def int_array_def one_minus_def)

text \<open>
  Claim C9, amended. \<^verbatim>\<open>np.where(x == k, x, 0)\<close> keeps the label value, which is 0 for the
  background label: both masked arrays of label 0 are zero everywhere, whatever the
  inputs are, and \<^verbatim>\<open>get_volumetric_symmetry\<close> always stores \<^verbatim>\<open>None\<close> for label 0. When the
  two arrays broadcast, \<^verbatim>\<open>get_dice_score\<close> stores for label 0 the number 0 if scipy's
  \<^verbatim>\<open>dice\<close> raises on a zero denominator, and nan if it gives nan; when they do not
  broadcast it raises \<^verbatim>\<open>ValueError\<close>.
\<close>

theorem background_label_degenerate:
  "all_zero (elements (where_eq lab2d 0)) \<and> all_zero (elements (where_eq pred2d 0))
 \<and> (\<exists>vs. get_volumetric_symmetry lab2d pred2d = Inr vs \<and> map_of vs 0 = Some PyNone)
 \<and> (if broadcasts (elements lab2d) (elements pred2d)
     then \<exists>dsc. get_dice_score zd lab2d pred2d = Inr dsc
            \<and> map_of dsc 0 = Some (case zd of Raises \<Rightarrow> PyInt 0 | GivesNaN \<Rightarrow> PyFloat NaN)
     else get_dice_score zd lab2d pred2d = Inl ValueError)"
proof -
  have z: "all_zero (elements (where_eq lab2d 0))" "all_zero (elements (where_eq pred2d 0))"
    by (rule all_zero_where_eq_zero)+
  have s: "sum_list (elements (where_eq lab2d 0)) = 0" "sum_list (elements (where_eq pred2d 0)) = 0"
    by (simp_all add: sum_list_where_eq)
  have v: "\<exists>vs. get_volumetric_symmetry lab2d pred2d = Inr vs \<and> map_of vs 0 = Some PyNone"
    using s by (simp add: get_volumetric_symmetry_eq map_of_keys range9_eq vs_value_def)
  have d: "\<exists>dsc. get_dice_score zd lab2d pred2d = Inr dsc
            \<and> map_of dsc 0 = Some (case zd of Raises \<Rightarrow> PyInt 0 | GivesNaN \<Rightarrow> PyFloat NaN)"
    if b: "broadcasts (elements lab2d) (elements pred2d)"
  proof -
    have "dice zd (elements (where_eq lab2d 0)) (elements (where_eq pred2d 0)) = zero_by_zero zd"
      using b z by (simp add: dice_zeros)
    then show ?thesis
      by (cases zd)
         (simp_all add: get_dice_score_eq [OF b] map_of_keys range9_eq zero_by_zero_def one_minus_def)
  qed
  show ?thesis
    using z v d get_dice_score_not_broadcast [of lab2d pred2d zd] by simp
qed

subsection \<open>The two volume-similarity variants\<close>

text \<open>
  For a label \<open>k\<close> from 1 to 8 the masked arrays of \<^verbatim>\<open>get_volumetric_symmetry\<close> sum to
  \<open>k * A\<close> and \<open>k * B\<close>, where \<open>A\<close> and \<open>B\<close> count the voxels of label \<open>k\<close>. Unless both
  arrays are unsigned and \<open>A < B\<close>, the difference is exact, the factor cancels, and both
  \<^verbatim>\<open>getVS\<close> (on the images) and \<^verbatim>\<open>get_volumetric_symmetry\<close> (on arrays of their voxels)
  store \<open>1 - |A - B| / (A + B)\<close> when \<open>A + B > 0\<close> and \<^verbatim>\<open>None\<close> when \<open>A + B = 0\<close>.
\<close>

lemma volumetric_symmetry_agrees_with_getVS:
  assumes "1 \<le> k" "k \<le> 8"
    and "elements lab2d = flatten (pixels testImage)"
    and "elements pred2d = flatten (pixels resultImage)"
    and "is_unsigned lab2d \<and> is_unsigned pred2d
           \<longrightarrow> count_list (elements pred2d) k \<le> count_list (elements lab2d) k
             \<and> count_list (elements lab2d) k < 2 ^ 60"
  shows "let A = int (count_list (elements lab2d) k); B = int (count_list (elements pred2d) k);
             vs_AB = (if A + B > 0
                      then PyFloat (Finite (1 - real_of_int \<bar>A - B\<bar> / real_of_int (A + B)))
                      else PyNone)
         in (\<exists>vs. getVS testImage resultImage = Inr vs \<and> map_of vs k = Some vs_AB)
          \<and> (\<exists>vs. get_volumetric_symmetry lab2d pred2d = Inr vs \<and> map_of vs k = Some vs_AB)"
proof -
  define A where "A = int (count_list (elements lab2d) k)"
  define B where "B = int (count_list (elements pred2d) k)"
  have kin: "k \<in> set labels_keys" "k \<in> set range9"
    using assms(1,2) by (auto simp: labels_keys_def range9_eq)
  have k0: "0 < k" using assms(1) by simp
  have nn: "0 \<le> A" "0 \<le> B" by (simp_all add: A_def B_def)
  have sub: "subtract_sums (where_eq lab2d k) (where_eq pred2d k) = k * A - k * B"
  proof (cases "is_unsigned lab2d \<and> is_unsigned pred2d")
    case True
    then have le: "B \<le> A" and bound: "A < 2 ^ 60"
      using assms(5) by (simp_all add: A_def B_def)
    have "k * A \<le> 8 * A" using assms(2) nn by (simp add: mult_right_mono)
    then have "k * A < 2 ^ 64" using bound by simp
    moreover have "0 \<le> k * B" using k0 nn by simp
    moreover have "k * B \<le> k * A" using le k0 by (simp add: mult_left_mono)
    ultimately have "(k * A - k * B) mod 2 ^ 64 = k * A - k * B"
      by (intro mod_pos_pos_trivial) simp_all
    then show ?thesis
      using True by (simp add: subtract_sums_def sum_list_where_eq A_def B_def)
  next
    case False
    then show ?thesis
      by (auto simp: subtract_sums_def sum_list_where_eq A_def B_def)
  qed
  have ab: "\<bar>k * A - k * B\<bar> = k * \<bar>A - B\<bar>"
    using k0 by (simp add: abs_mult flip: right_diff_distrib)
  have pos: "k * A + k * B > 0 \<longleftrightarrow> A + B > 0"
    using k0 by (simp add: zero_less_mult_iff flip: distrib_left)
  have frac: "real_of_int (k * \<bar>A - B\<bar>) / real_of_int (k * A + k * B)
        = real_of_int \<bar>A - B\<bar> / real_of_int (A + B)"
    using k0 by (simp add: distrib_left [symmetric] del: distrib_left)
  have v1: "vs_value \<bar>A - B\<bar> (A + B) =
      (if A + B > 0 then PyFloat (Finite (1 - real_of_int \<bar>A - B\<bar> / real_of_int (A + B))) else PyNone)"
    by (simp add: vs_value_def)
  have v2: "vs_value \<bar>k * A - k * B\<bar> (k * A + k * B) = vs_value \<bar>A - B\<bar> (A + B)"
    unfolding vs_value_def ab using pos frac by simp
  have g1: "\<exists>vs. getVS testImage resultImage = Inr vs \<and> map_of vs k = Some (vs_value \<bar>A - B\<bar> (A + B))"
    using kin(1)
    by (simp add: getVS_eq map_of_keys GetSum_BinaryThreshold A_def B_def assms(3,4))
  have g2: "\<exists>vs. get_volumetric_symmetry lab2d pred2d = Inr vs \<and> map_of vs k = Some (vs_value \<bar>A - B\<bar> (A + B))"
    using kin(2) v2 sub
    by (simp add: get_volumetric_symmetry_eq map_of_keys sum_list_where_eq A_def B_def)
  have "(\<exists>vs. getVS testImage resultImage = Inr vs \<and> map_of vs k = Some (vs_value \<bar>A - B\<bar> (A + B)))
      \<and> (\<exists>vs. get_volumetric_symmetry lab2d pred2d = Inr vs \<and> map_of vs k = Some (vs_value \<bar>A - B\<bar> (A + B)))"
    using g1 g2 by blast
  then show ?thesis
    unfolding v1 unfolding Let_def A_def B_def .
qed

text \<open>
  Claim C10 on unsigned arrays: the arrays \<open>[1, 0, 0]\<close> and \<open>[1, 1, 0]\<close> of an unsigned
  dtype have \<open>A = 1\<close> and \<open>B = 2\<close> voxels of label 1. The difference of the two unsigned
  sums wraps around to \<open>2 ^ 64 - 1\<close>, and \<^verbatim>\<open>get_volumetric_symmetry\<close> stores
  \<open>1 - (2 ^ 64 - 1) / 3\<close>, where \<^verbatim>\<open>getVS\<close> on images of the same voxels stores \<open>2 / 3\<close>.
\<close>

theorem volumetric_symmetry_unsigned_wraps:
  "get_volumetric_symmetry (uint_array [1, 0, 0]) (uint_array [1, 1, 0]) =
     Inr [(0, PyNone), (1, PyFloat (Finite (1 - (2 ^ 64 - 1) / 3))), (2, PyNone), (3, PyNone),
          (4, PyNone), (5, PyNone), (6, PyNone), (7, PyNone), (8, PyNone)]
 \<and> getVS (unit_image [[[1, 0, 0]]]) (unit_image [[[1, 1, 0]]]) =
     Inr [(0, PyFloat (Finite (2 / 3))), (1, PyFloat (Finite (2 / 3))), (2, PyNone), (3, PyNone),
          (4, PyNone), (5, PyNone), (6, PyNone), (7, PyNone), (8, PyNone)]"
  by (simp add: get_volumetric_symmetry_def range9_eq get_volumetric_symmetry_body_def
      vs_value_def where_eq_def uint_array_def subtract_sums_def
      getVS_def labels_keys_def getVS_body_def GetSum_def flatten_def BinaryThreshold_def
      unit_image_def)

subsection \<open>Dice when both masks are empty\<close>

text \<open>
  Claim C1, as stated, asks every Dice function to store the undefined marker when both
  masks of a label are zero everywhere. Label 2 does not occur in the array \<open>[1]\<close>.
  \<^verbatim>\<open>get_dice_score\<close> on \<open>[1]\<close> and \<open>[1]\<close> stores for label 2 the number 0 when scipy's
  \<^verbatim>\<open>dice\<close> raises on a zero denominator and nan when it gives nan; in the second case
  \<^verbatim>\<open>getDSC\<close> stores nan as well. None of these is the marker \<^verbatim>\<open>None\<close>.
\<close>

theorem dice_zero_policy_counterexample:
  "get_dice_score Raises (int_array [1]) (int_array [1]) =
     Inr [(0, PyInt 0), (1, PyFloat (Finite 1)), (2, PyInt 0), (3, PyInt 0), (4, PyInt 0),
          (5, PyInt 0), (6, PyInt 0), (7, PyInt 0), (8, PyInt 0)]
 \<and> get_dice_score GivesNaN (int_array [1]) (int_array [1]) =
     Inr [(0, PyFloat NaN), (1, PyFloat (Finite 1)), (2, PyFloat NaN), (3, PyFloat NaN),
          (4, PyFloat NaN), (5, PyFloat NaN), (6, PyFloat NaN), (7, PyFloat NaN),
          (8, PyFloat NaN)]
 \<and> getDSC GivesNaN (unit_image [[[1]]]) (unit_image [[[1]]]) =
     Inr [(0, PyFloat NaN), (1, PyFloat (Finite 1)), (2, PyFloat NaN), (3, PyFloat NaN),
          (4, PyFloat NaN), (5, PyFloat NaN), (6, PyFloat NaN), (7, PyFloat NaN),
          (8, PyFloat NaN)]"
  by (simp add: get_dice_score_def range9_eq get_dice_score_body_def dice_def broadcast_def
      where_eq_def int_array_def one_minus_def getDSC_def labels_keys_def getDSC_body_def
      flatten_def BinaryThreshold_def unit_image_def)

text \<open>
  Claim C1, amended. For same-shaped inputs and a label that occurs in neither input, so
  that both of its masks are zero everywhere: when scipy's \<^verbatim>\<open>dice\<close> raises on a zero
  denominator, \<^verbatim>\<open>getDSC\<close> stores \<^verbatim>\<open>None\<close> for the label and \<^verbatim>\<open>get_dice_score\<close> stores the
  number 0; when it gives nan, both store nan.
\<close>

theorem dice_zero_policy_differs:
  assumes "shape (pixels testImage) = shape (pixels resultImage)"
    and "length (elements lab2d) = length (elements pred2d)"
    and "k \<in> set labels_keys"
    and "all_zero (flatten (pixels (BinaryThreshold testImage k k 1 0)))"
    and "all_zero (flatten (pixels (BinaryThreshold resultImage k k 1 0)))"
    and "k \<notin> set (elements lab2d)" and "k \<notin> set (elements pred2d)"
  shows "(\<exists>dsc. getDSC zd testImage resultImage = Inr dsc
            \<and> map_of dsc k = Some (case zd of Raises \<Rightarrow> PyNone | GivesNaN \<Rightarrow> PyFloat NaN))
       \<and> (\<exists>dsc. get_dice_score zd lab2d pred2d = Inr dsc
            \<and> map_of dsc k = Some (case zd of Raises \<Rightarrow> PyInt 0 | GivesNaN \<Rightarrow> PyFloat NaN))"
proof -
  let ?ta = "flatten (pixels (BinaryThreshold testImage k k 1 0))"
  let ?ra = "flatten (pixels (BinaryThreshold resultImage k k 1 0))"
  have kin: "k \<in> set range9" using assms(3) by (simp add: range9_eq labels_keys_def)
  have b1: "broadcasts ?ta ?ra"
    using length_flatten_shape [OF assms(1)] by (simp add: pixels_BinaryThreshold broadcasts_def)
  have b2: "broadcasts (elements lab2d) (elements pred2d)"
    using assms(2) by (simp add: broadcasts_def)
  have z: "all_zero (elements (where_eq lab2d k))" "all_zero (elements (where_eq pred2d k))"
    using assms(6,7) all_zero_where_eq [of k] all_zero_where_eq_zero by (cases "k = 0"; simp)+
  have d1: "dice zd ?ta ?ra = zero_by_zero zd"
    using dice_zeros [OF b1 assms(4,5)] .
  have d2: "dice zd (elements (where_eq lab2d k)) (elements (where_eq pred2d k)) = zero_by_zero zd"
    using b2 z by (simp add: dice_zeros)
  have g1: "\<exists>dsc. getDSC zd testImage resultImage = Inr dsc
            \<and> map_of dsc k = Some (case zd of Raises \<Rightarrow> PyNone | GivesNaN \<Rightarrow> PyFloat NaN)"
    using assms(3) d1
    by (cases zd) (simp_all add: getDSC_eq [OF assms(1)] map_of_keys zero_by_zero_def one_minus_def)
  have g2: "\<exists>dsc. get_dice_score zd lab2d pred2d = Inr dsc
            \<and> map_of dsc k = Some (case zd of Raises \<Rightarrow> PyInt 0 | GivesNaN \<Rightarrow> PyFloat NaN)"
    using kin d2
    by (cases zd) (simp_all add: get_dice_score_eq [OF b2] map_of_keys zero_by_zero_def one_minus_def)
  show ?thesis using g1 g2 by blast
qed

theorem dice_zero_policy_differs_witness:
  "((\<exists>dsc. getDSC Raises (unit_image [[[1, 0]]]) (unit_image [[[0, 1]]]) = Inr dsc
        \<and> map_of dsc 3 = Some (case Raises of Raises \<Rightarrow> PyNone | GivesNaN \<Rightarrow> PyFloat NaN))
  \<and> (\<exists>dsc. get_dice_score Raises (int_array [1, 0]) (int_array [0, 1]) = Inr dsc
        \<and> map_of dsc 3 = Some (case Raises of Raises \<Rightarrow> PyInt 0 | GivesNaN \<Rightarrow> PyFloat NaN)))
 \<and> ((\<exists>dsc. getDSC GivesNaN (unit_image [[[1, 0]]]) (unit_image [[[0, 1]]]) = Inr dsc
        \<and> map_of dsc 3 = Some (case GivesNaN of Raises \<Rightarrow> PyNone | GivesNaN \<Rightarrow> PyFloat NaN))
  \<and> (\<exists>dsc. get_dice_score GivesNaN (int_array [1, 0]) (int_array [0, 1]) = Inr dsc
        \<and> map_of dsc 3 = Some (case GivesNaN of Raises \<Rightarrow> PyInt 0 | GivesNaN \<Rightarrow> PyFloat NaN)))"
  by (rule conjI; rule dice_zero_policy_differs)
     (simp_all add: unit_image_def shape_def labels_keys_def all_zero_def BinaryThreshold_def
        flatten_def int_array_def)

subsection \<open>Nine entries, in the order of the labels\<close>

text \<open>
  Claim C3, as stated, has a degenerate label yield an undefined entry in each metric
  function. On the arrays \<open>[1]\<close> and \<open>[0]\<close> the labels 2 to 8 occur in neither array, and
  \<^verbatim>\<open>get_dice_score\<close> stores for each of them the number 0 when scipy's \<^verbatim>\<open>dice\<close> raises on
  a zero denominator and nan when it gives nan, not \<^verbatim>\<open>None\<close>.
\<close>

theorem undefined_entry_counterexample:
  "get_dice_score Raises (int_array [1]) (int_array [0]) =
     Inr [(0, PyInt 0), (1, PyFloat (Finite 0)), (2, PyInt 0), (3, PyInt 0), (4, PyInt 0),
          (5, PyInt 0), (6, PyInt 0), (7, PyInt 0), (8, PyInt 0)]
 \<and> get_dice_score GivesNaN (int_array [1]) (int_array [0]) =
     Inr [(0, PyFloat NaN), (1, PyFloat (Finite 0)), (2, PyFloat NaN), (3, PyFloat NaN),
          (4, PyFloat NaN), (5, PyFloat NaN), (6, PyFloat NaN), (7, PyFloat NaN),
          (8, PyFloat NaN)]"
  by (simp add: get_dice_score_def range9_eq get_dice_score_body_def dice_def broadcast_def
      where_eq_def int_array_def one_minus_def)

text \<open>
  Claim C3, amended. For same-shaped inputs, \<^verbatim>\<open>getDSC\<close>, \<^verbatim>\<open>getVS\<close>, \<^verbatim>\<open>get_dice_score\<close> and
  \<^verbatim>\<open>get_volumetric_symmetry\<close> each return a dictionary of exactly nine entries, keyed 0 to
  8 in this order, and no label aborts the loop. In \<^verbatim>\<open>getDSC\<close> and \<^verbatim>\<open>getVS\<close>, a label that
  occurs in neither image gets \<^verbatim>\<open>None\<close> (in \<^verbatim>\<open>getDSC\<close>: nan, when scipy's \<^verbatim>\<open>dice\<close> gives nan
  for \<open>0 / 0\<close>) and every other label gets a number. In the array variants the same
  holds of the labels 1 to 8, with the number 0 in place of \<^verbatim>\<open>None\<close> in
  \<^verbatim>\<open>get_dice_score\<close>; what they store for label 0 is not part of the statement.
\<close>

theorem metric_dictionaries_nine_entries:
  assumes "shape (pixels testImage) = shape (pixels resultImage)"
    and "length (elements lab2d) = length (elements pred2d)"
  shows "\<exists>dsc vs dsc' vs'.
     getDSC zd testImage resultImage = Inr dsc \<and> getVS testImage resultImage = Inr vs
   \<and> get_dice_score zd lab2d pred2d = Inr dsc' \<and> get_volumetric_symmetry lab2d pred2d = Inr vs'
   \<and> map fst dsc = [0, 1, 2, 3, 4, 5, 6, 7, 8] \<and> map fst vs = [0, 1, 2, 3, 4, 5, 6, 7, 8]
   \<and> map fst dsc' = [0, 1, 2, 3, 4, 5, 6, 7, 8] \<and> map fst vs' = [0, 1, 2, 3, 4, 5, 6, 7, 8]
   \<and> list_all (\<lambda>(k, v).
        if k \<notin> set (flatten (pixels testImage)) \<and> k \<notin> set (flatten (pixels resultImage))
        then v = (case zd of Raises \<Rightarrow> PyNone | GivesNaN \<Rightarrow> PyFloat NaN)
        else is_number v) dsc
   \<and> list_all (\<lambda>(k, v).
        if k \<notin> set (flatten (pixels testImage)) \<and> k \<notin> set (flatten (pixels resultImage))
        then v = PyNone else is_number v) vs
   \<and> list_all (\<lambda>(k, v). k = 0 \<or>
        (if k \<notin> set (elements lab2d) \<and> k \<notin> set (elements pred2d)
         then v = (case zd of Raises \<Rightarrow> PyInt 0 | GivesNaN \<Rightarrow> PyFloat NaN)
         else is_number v)) dsc'
   \<and> list_all (\<lambda>(k, v). k = 0 \<or>
        (if k \<notin> set (elements lab2d) \<and> k \<notin> set (elements pred2d)
         then v = PyNone else is_number v)) vs'"
proof -
  let ?ta = "\<lambda>k. flatten (pixels (BinaryThreshold testImage k k 1 0))"
  let ?ra = "\<lambda>k. flatten (pixels (BinaryThreshold resultImage k k 1 0))"
  have len1: "length (?ta k) = length (?ra k)" for k
    using length_flatten_shape [OF assms(1)] by (simp add: pixels_BinaryThreshold)
  have len2: "length (elements (where_eq lab2d k)) = length (elements (where_eq pred2d k))" for k
    using assms(2) by simp
  have b2: "broadcasts (elements lab2d) (elements pred2d)"
    using assms(2) by (simp add: broadcasts_def)
  have nn: "k \<in> set range9 \<Longrightarrow> 0 \<le> k" for k by (auto simp: range9_eq)
  have e1: "list_all (\<lambda>(k, v).
        if k \<notin> set (flatten (pixels testImage)) \<and> k \<notin> set (flatten (pixels resultImage))
        then v = (case zd of Raises \<Rightarrow> PyNone | GivesNaN \<Rightarrow> PyFloat NaN)
        else is_number v)
      (map (\<lambda>k. (k, case dice zd (?ta k) (?ra k) of Inr d \<Rightarrow> PyFloat (one_minus d) | Inl e \<Rightarrow> PyNone)) labels_keys)"
    unfolding list_all_keys unfolding list_all_iff
    using entry_dice [OF len1 mask_nonneg mask_nonneg, where w = PyNone and zd = zd]
    unfolding all_zero_mask by blast
  have e2: "list_all (\<lambda>(k, v).
        if k \<notin> set (flatten (pixels testImage)) \<and> k \<notin> set (flatten (pixels resultImage))
        then v = PyNone else is_number v)
      (map (\<lambda>k. (k, vs_value \<bar>GetSum (BinaryThreshold testImage k k 1 0) - GetSum (BinaryThreshold resultImage k k 1 0)\<bar>
         (GetSum (BinaryThreshold testImage k k 1 0) + GetSum (BinaryThreshold resultImage k k 1 0)))) labels_keys)"
    unfolding list_all_keys GetSum_def unfolding list_all_iff
    using entry_vs [OF mask_nonneg mask_nonneg] unfolding all_zero_mask by blast
  have e3: "list_all (\<lambda>(k, v). k = 0 \<or>
        (if k \<notin> set (elements lab2d) \<and> k \<notin> set (elements pred2d)
         then v = (case zd of Raises \<Rightarrow> PyInt 0 | GivesNaN \<Rightarrow> PyFloat NaN)
         else is_number v))
      (map (\<lambda>k. (k, case dice zd (elements (where_eq lab2d k)) (elements (where_eq pred2d k)) of
          Inr d \<Rightarrow> PyFloat (one_minus d) | Inl e \<Rightarrow> PyInt 0)) range9)"
    unfolding list_all_keys unfolding list_all_iff
  proof
    fix k assume k: "k \<in> set range9"
    show "k = 0 \<or>
        (if k \<notin> set (elements lab2d) \<and> k \<notin> set (elements pred2d)
         then (case dice zd (elements (where_eq lab2d k)) (elements (where_eq pred2d k)) of
                 Inr d \<Rightarrow> PyFloat (one_minus d) | Inl e \<Rightarrow> PyInt 0)
              = (case zd of Raises \<Rightarrow> PyInt 0 | GivesNaN \<Rightarrow> PyFloat NaN)
         else is_number (case dice zd (elements (where_eq lab2d k)) (elements (where_eq pred2d k)) of
                 Inr d \<Rightarrow> PyFloat (one_minus d) | Inl e \<Rightarrow> PyInt 0))"
    proof (cases "k = 0")
      case True
      then show ?thesis by simp
    next
      case False
      show ?thesis
        using entry_dice [OF len2 where_eq_nonneg [OF nn [OF k]] where_eq_nonneg [OF nn [OF k]],
            where w = "PyInt 0" and zd = zd]
        unfolding all_zero_where_eq [OF False] by blast
    qed
  qed
  have e4: "list_all (\<lambda>(k, v). k = 0 \<or>
        (if k \<notin> set (elements lab2d) \<and> k \<notin> set (elements pred2d)
         then v = PyNone else is_number v))
      (map (\<lambda>k. (k, vs_value \<bar>subtract_sums (where_eq lab2d k) (where_eq pred2d k)\<bar>
         (sum_list (elements (where_eq lab2d k)) + sum_list (elements (where_eq pred2d k))))) range9)"
    unfolding list_all_keys unfolding list_all_iff
  proof
    fix k assume k: "k \<in> set range9"
    show "k = 0 \<or>
        (if k \<notin> set (elements lab2d) \<and> k \<notin> set (elements pred2d)
         then vs_value \<bar>subtract_sums (where_eq lab2d k) (where_eq pred2d k)\<bar>
                (sum_list (elements (where_eq lab2d k)) + sum_list (elements (where_eq pred2d k))) = PyNone
         else is_number (vs_value \<bar>subtract_sums (where_eq lab2d k) (where_eq pred2d k)\<bar>
                (sum_list (elements (where_eq lab2d k)) + sum_list (elements (where_eq pred2d k)))))"
    proof (cases "k = 0")
      case True
      then show ?thesis by simp
    next
      case False
      show ?thesis
        using entry_vs [OF where_eq_nonneg [OF nn [OF k]] where_eq_nonneg [OF nn [OF k]]]
        unfolding all_zero_where_eq [OF False] by blast
    qed
  qed
  have k1: "map fst (map (\<lambda>k. (k, f k)) labels_keys) = [0, 1, 2, 3, 4, 5, 6, 7, 8]" for f :: "int \<Rightarrow> pyval"
    unfolding map_fst_keys by (simp add: labels_keys_def)
  have k2: "map fst (map (\<lambda>k. (k, f k)) range9) = [0, 1, 2, 3, 4, 5, 6, 7, 8]" for f :: "int \<Rightarrow> pyval"
    unfolding map_fst_keys by (simp add: range9_eq)
  show ?thesis
    unfolding getDSC_eq [OF assms(1)] getVS_eq get_dice_score_eq [OF b2]
      get_volumetric_symmetry_eq
    by (intro exI conjI, (rule refl)+) (rule k1 k2 e1 e2 e3 e4)+
qed

theorem metric_dictionaries_nine_entries_witness:
  "\<exists>dsc vs dsc' vs'.
     getDSC GivesNaN (unit_image [[[1, 0]]]) (unit_image [[[1, 2]]]) = Inr dsc
   \<and> getVS (unit_image [[[1, 0]]]) (unit_image [[[1, 2]]]) = Inr vs
   \<and> get_dice_score GivesNaN (uint_array [1, 0]) (uint_array [1, 2]) = Inr dsc'
   \<and> get_volumetric_symmetry (uint_array [1, 0]) (uint_array [1, 2]) = Inr vs'
   \<and> map fst dsc = [0, 1, 2, 3, 4, 5, 6, 7, 8] \<and> map fst vs = [0, 1, 2, 3, 4, 5, 6, 7, 8]
   \<and> map fst dsc' = [0, 1, 2, 3, 4, 5, 6, 7, 8] \<and> map fst vs' = [0, 1, 2, 3, 4, 5, 6, 7, 8]
   \<and> list_all (\<lambda>(k, v).
        if k \<notin> set (flatten (pixels (unit_image [[[1, 0]]])))
         \<and> k \<notin> set (flatten (pixels (unit_image [[[1, 2]]])))
        then v = (case GivesNaN of Raises \<Rightarrow> PyNone | GivesNaN \<Rightarrow> PyFloat NaN)
        else is_number v) dsc
   \<and> list_all (\<lambda>(k, v).
        if k \<notin> set (flatten (pixels (unit_image [[[1, 0]]])))
         \<and> k \<notin> set (flatten (pixels (unit_image [[[1, 2]]])))
        then v = PyNone else is_number v) vs
   \<and> list_all (\<lambda>(k, v). k = 0 \<or>
        (if k \<notin> set (elements (uint_array [1, 0])) \<and> k \<notin> set (elements (uint_array [1, 2]))
         then v = (case GivesNaN of Raises \<Rightarrow> PyInt 0 | GivesNaN \<Rightarrow> PyFloat NaN)
         else is_number v)) dsc'
   \<and> list_all (\<lambda>(k, v). k = 0 \<or>
        (if k \<notin> set (elements (uint_array [1, 0])) \<and> k \<notin> set (elements (uint_array [1, 2]))
         then v = PyNone else is_number v)) vs'"
  by (rule metric_dictionaries_nine_entries) (simp_all add: unit_image_def shape_def uint_array_def)

subsection \<open>Volume similarity\<close>

text \<open>
  What \<^verbatim>\<open>getVS\<close> stores for a label, with \<open>A\<close> and \<open>B\<close> the voxel counts of the label in
  the two images, and the range of the value.
\<close>

lemma getVS_formula:
  assumes "k \<in> set labels_keys"
  shows "let A = int (count_list (flatten (pixels testImage)) k);
             B = int (count_list (flatten (pixels resultImage)) k)
         in \<exists>vs. getVS testImage resultImage = Inr vs \<and>
              map_of vs k = Some (if A + B = 0 then PyNone
                                  else PyFloat (Finite (1 - real_of_int \<bar>A - B\<bar> / real_of_int (A + B))))"
  using assms by (simp add: getVS_eq map_of_keys GetSum_BinaryThreshold vs_value_def Let_def)

lemma vs_range:
  fixes A B :: int
  assumes "0 \<le> A" "0 \<le> B" "A + B \<noteq> 0"
  shows "0 \<le> 1 - real_of_int \<bar>A - B\<bar> / real_of_int (A + B)"
    and "1 - real_of_int \<bar>A - B\<bar> / real_of_int (A + B) \<le> 1"
    and "1 - real_of_int \<bar>A - B\<bar> / real_of_int (A + B) = 1 \<longleftrightarrow> A = B"
proof -
  have pos: "0 < real_of_int (A + B)" using assms by simp
  have le: "real_of_int \<bar>A - B\<bar> \<le> real_of_int (A + B)" using assms by simp
  show "0 \<le> 1 - real_of_int \<bar>A - B\<bar> / real_of_int (A + B)"
    using pos le by (simp add: divide_le_eq)
  show "1 - real_of_int \<bar>A - B\<bar> / real_of_int (A + B) \<le> 1"
    using pos by simp
  show "1 - real_of_int \<bar>A - B\<bar> / real_of_int (A + B) = 1 \<longleftrightarrow> A = B"
    using pos by simp
qed

text \<open>
  Claim C5 at the background label in \<^verbatim>\<open>get_volumetric_symmetry\<close>: both arrays hold two
  voxels of label 0, so \<open>A = B = 2\<close> and the claim gives the value 1; the function
  stores \<^verbatim>\<open>None\<close>, because its masked arrays keep the label value 0 instead of 1. The
  dtype of the arrays makes no difference.
\<close>

theorem get_volumetric_symmetry_background:
  "get_volumetric_symmetry (int_array [0, 0, 1]) (int_array [0, 0, 1]) =
     Inr [(0, PyNone), (1, PyFloat (Finite 1)), (2, PyNone), (3, PyNone), (4, PyNone),
          (5, PyNone), (6, PyNone), (7, PyNone), (8, PyNone)]
 \<and> get_volumetric_symmetry (uint_array [0, 0, 1]) (uint_array [0, 0, 1]) =
     Inr [(0, PyNone), (1, PyFloat (Finite 1)), (2, PyNone), (3, PyNone), (4, PyNone),
          (5, PyNone), (6, PyNone), (7, PyNone), (8, PyNone)]"
  by (simp add: get_volumetric_symmetry_def range9_eq get_volumetric_symmetry_body_def
      vs_value_def where_eq_def int_array_def uint_array_def subtract_sums_def)

subsection \<open>Dice of a mask with itself\<close>

text \<open>\<^verbatim>\<open>getDSC\<close> of an image with itself is 1 at every label that occurs in the image.\<close>

lemma getDSC_self:
  assumes "k \<in> set labels_keys" "k \<in> set (flatten (pixels img))"
  shows "\<exists>dsc. getDSC zd img img = Inr dsc \<and> map_of dsc k = Some (PyFloat (Finite 1))"
proof -
  let ?u = "flatten (pixels (BinaryThreshold img k k 1 0))"
  have num: "(\<Sum>(a, b) \<leftarrow> zip xs xs. a * (1 - b)) = 0 \<and> (\<Sum>(a, b) \<leftarrow> zip xs xs. (1 - a) * b) = 0"
    if "list_all (\<lambda>v. v = 0 \<or> v = 1) xs" for xs :: "int list"
    using that by (induction xs) auto
  have bin: "list_all (\<lambda>v. v = 0 \<or> v = 1) ?u"
    by (auto simp: pixels_BinaryThreshold list_all_iff)
  have nz: "\<not> (all_zero ?u \<and> all_zero ?u)"
    using assms(2) by (simp add: all_zero_mask)
  have "dice zd ?u ?u = Inr (Finite 0)"
    unfolding dice_same_length [OF refl mask_nonneg mask_nonneg] using num [OF bin] nz by simp
  then show ?thesis
    using assms(1) by (simp add: getDSC_eq map_of_keys one_minus_def)
qed

text \<open>
  Claim C8 in \<^verbatim>\<open>get_dice_score\<close>: the array \<open>[0, 2]\<close> compared with itself has one voxel
  of label 0 and one of label 2, so both masks are non-empty. The entry of label 2 is
  2, not 1; the entry of label 0 is the number 0 when scipy's \<^verbatim>\<open>dice\<close> raises on a zero
  denominator and nan when it gives nan, and not 1 either.
\<close>

theorem get_dice_score_self_not_one:
  "get_dice_score Raises (int_array [0, 2]) (int_array [0, 2]) =
     Inr [(0, PyInt 0), (1, PyInt 0), (2, PyFloat (Finite 2)), (3, PyInt 0), (4, PyInt 0),
          (5, PyInt 0), (6, PyInt 0), (7, PyInt 0), (8, PyInt 0)]
 \<and> get_dice_score GivesNaN (int_array [0, 2]) (int_array [0, 2]) =
     Inr [(0, PyFloat NaN), (1, PyFloat NaN), (2, PyFloat (Finite 2)), (3, PyFloat NaN),
          (4, PyFloat NaN), (5, PyFloat NaN), (6, PyFloat NaN), (7, PyFloat NaN),
          (8, PyFloat NaN)]"
  by (simp add: get_dice_score_def range9_eq get_dice_score_body_def dice_def broadcast_def
      where_eq_def int_array_def one_minus_def)

subsection \<open>Hausdorff distance when a mask is empty\<close>

text \<open>
  \<^verbatim>\<open>getHausdorff\<close> tests the sums of the two masks first: when either mask is empty the
  loop stores \<^verbatim>\<open>None\<close> for the label and goes on, without erosion or search.
\<close>

lemma getHausdorff_body_empty:
  assumes "all_zero (flatten (pixels (BinaryThreshold testImage k k 1 0)))
         \<or> all_zero (flatten (pixels (BinaryThreshold resultImage k k 1 0)))"
  shows "getHausdorff_body testImage resultImage k h = Inr (dict_set h k PyNone)"
proof -
  have "GetSum (BinaryThreshold testImage k k 1 0) = 0 \<or> GetSum (BinaryThreshold resultImage k k 1 0) = 0"
    using assms all_zero_sum [OF mask_nonneg, of testImage k] all_zero_sum [OF mask_nonneg, of resultImage k]
    by (auto simp: GetSum_def)
  then show ?thesis by (auto simp: getHausdorff_body_def Let_def)
qed

text \<open>
  \<^verbatim>\<open>get_hausdorff_distance\<close> has no such test. It hands the masked arrays, reshaped to
  three dimensions, to the k-d tree, which takes a two-dimensional array of points only.
\<close>

lemma KDTree_Arr3: "getDistancesFromAtoB (Arr3 a) b = Inl ValueError"
  by (simp add: getDistancesFromAtoB_def)

lemma reshape_cases: "reshape x dims = Inl ValueError \<or> (\<exists>a. reshape x dims = Inr (Arr3 a))"
  by (cases dims) (simp add: reshape_def)

lemma get_hausdorff_distance_body_raises:
  "get_hausdorff_distance_body lab2d pred2d k h = Inl ValueError"
  using reshape_cases [of "elements (where_eq lab2d k)" "(220, 220, 48)"]
        reshape_cases [of "elements (where_eq pred2d k)" "(220, 220, 48)"]
  by (auto simp: get_hausdorff_distance_body_def KDTree_Arr3)

text \<open>
  Claim C2 in \<^verbatim>\<open>get_hausdorff_distance\<close>: whatever the label arrays are, also when a mask
  is empty, the function stores no undefined marker; it raises \<^verbatim>\<open>ValueError\<close> in its first
  iteration, from \<^verbatim>\<open>np.reshape\<close> or from the k-d tree.
\<close>

theorem get_hausdorff_distance_raises:
  "get_hausdorff_distance lab2d pred2d = Inl ValueError"
  by (simp add: get_hausdorff_distance_def range9_eq get_hausdorff_distance_body_raises)

subsection \<open>An empty boundary reaches the k-d tree\<close>

lemma upto_m1_1: "[- 1..1::int] = [- 1, 0, 1]"
  by code_simp

lemma kernel_offsets_110:
  "kernel_offsets (1, 1, 0) =
     [(0, - 1, - 1), (0, - 1, 0), (0, - 1, 1), (0, 0, - 1), (0, 0, 0), (0, 0, 1),
      (0, 1, - 1), (0, 1, 0), (0, 1, 1)]"
  by (simp add: kernel_offsets_def upto_m1_1)

lemma kernel_offsets_Suc:
  "kernel_offsets (Suc 0, Suc 0, 0) =
     [(0, - 1, - 1), (0, - 1, 0), (0, - 1, 1), (0, 0, - 1), (0, 0, 0), (0, 0, 1),
      (0, 1, - 1), (0, 1, 0), (0, 1, 1)]"
  using kernel_offsets_110 by simp

text \<open>
  Claim C6 in \<^verbatim>\<open>getHausdorff\<close>: a slice of 2 by 2 voxels, all of label 1, in both images.
  The masks of label 1 sum to 4, so the test for empty masks passes; the erosion, which
  takes the outside of the image for foreground, removes nothing; the boundary is
  empty, the k-d tree is built on an empty list and raises.
\<close>

theorem empty_boundary_reaches_kdtree:
  "GetSum (BinaryThreshold (unit_image [[[1, 1], [1, 1]]]) 1 1 1 0) = 4
 \<and> pixels (BinaryErode (BinaryThreshold (unit_image [[[1, 1], [1, 1]]]) 1 1 1 0) (1, 1, 0) True)
      = [[[1, 1], [1, 1]]]
 \<and> index_rows (pixels (Subtract (BinaryThreshold (unit_image [[[1, 1], [1, 1]]]) 1 1 1 0)
      (BinaryErode (BinaryThreshold (unit_image [[[1, 1], [1, 1]]]) 1 1 1 0) (1, 1, 0) True))) = []
 \<and> getDistancesFromAtoB (asarray []) (asarray []) = Inl ValueError
 \<and> getHausdorff (unit_image [[[1, 1], [1, 1]]]) (unit_image [[[1, 1], [1, 1]]]) = Inl ValueError"
  by (simp add: getHausdorff_def labels_keys_def getHausdorff_body_def GetSum_def flatten_def
      BinaryThreshold_def unit_image_def BinaryErode_def erode_voxel_def kernel_offsets_Suc
      voxel_def Subtract_def index_rows_def nonzero_def asarray_def getDistancesFromAtoB_def
      enumerate_eq_zip upt_rec)

subsection \<open>The boundary lies inside the mask\<close>

lemma indexed_eq:
  "map (\<lambda>(i, v). f i v) (enumerate 0 xs) = map (\<lambda>i. f i (xs ! i)) [0..<length xs]"
  by (rule nth_equalityI) (simp_all add: nth_enumerate_eq)

lemma set_indexed_concat:
  "set (concat (map (\<lambda>(i, v). f i v) (enumerate 0 xs))) = (\<Union>i<length xs. set (f i (xs ! i)))"
  unfolding indexed_eq by auto

lemma in_nonzero:
  "(z, y, x) \<in> set (nonzero a) \<longleftrightarrow>
     z < length a \<and> y < length (a ! z) \<and> x < length (a ! z ! y) \<and> a ! z ! y ! x \<noteq> 0"
  unfolding nonzero_def set_indexed_concat by auto

lemma voxel_Some:
  "z < length a \<Longrightarrow> y < length (a ! z) \<Longrightarrow> x < length (a ! z ! y) \<Longrightarrow>
   voxel a (int z) (int y) (int x) = Some (a ! z ! y ! x)"
  by (simp add: voxel_def)

lemma BinaryErode_shape:
  "length (pixels (BinaryErode img r b)) = length (pixels img)"
  "z < length (pixels img) \<Longrightarrow>
     length (pixels (BinaryErode img r b) ! z) = length (pixels img ! z)"
  "z < length (pixels img) \<Longrightarrow> y < length (pixels img ! z) \<Longrightarrow>
     length (pixels (BinaryErode img r b) ! z ! y) = length (pixels img ! z ! y)"
  by (simp_all add: BinaryErode_def nth_enumerate_eq)

lemma BinaryErode_nth:
  "z < length (pixels img) \<Longrightarrow> y < length (pixels img ! z) \<Longrightarrow> x < length (pixels img ! z ! y) \<Longrightarrow>
   pixels (BinaryErode img r b) ! z ! y ! x =
     erode_voxel (pixels img) r b (int z) (int y) (int x) (pixels img ! z ! y ! x)"
  by (simp add: BinaryErode_def nth_enumerate_eq)

lemma Subtract_shape:
  "length (pixels (Subtract a b)) = min (length (pixels a)) (length (pixels b))"
  "z < length (pixels a) \<Longrightarrow> z < length (pixels b) \<Longrightarrow>
     length (pixels (Subtract a b) ! z) = min (length (pixels a ! z)) (length (pixels b ! z))"
  "z < length (pixels a) \<Longrightarrow> z < length (pixels b) \<Longrightarrow>
   y < length (pixels a ! z) \<Longrightarrow> y < length (pixels b ! z) \<Longrightarrow>
     length (pixels (Subtract a b) ! z ! y) = min (length (pixels a ! z ! y)) (length (pixels b ! z ! y))"
  by (simp_all add: Subtract_def)

lemma Subtract_nth:
  "z < length (pixels a) \<Longrightarrow> z < length (pixels b) \<Longrightarrow>
   y < length (pixels a ! z) \<Longrightarrow> y < length (pixels b ! z) \<Longrightarrow>
   x < length (pixels a ! z ! y) \<Longrightarrow> x < length (pixels b ! z ! y) \<Longrightarrow>
     pixels (Subtract a b) ! z ! y ! x = (pixels a ! z ! y ! x - pixels b ! z ! y ! x) mod 256"
  by (simp add: Subtract_def)

lemma boundary_shape:
  "length (pixels (Subtract m (BinaryErode m r b))) = length (pixels m)"
  "z < length (pixels m) \<Longrightarrow>
     length (pixels (Subtract m (BinaryErode m r b)) ! z) = length (pixels m ! z)"
  "z < length (pixels m) \<Longrightarrow> y < length (pixels m ! z) \<Longrightarrow>
     length (pixels (Subtract m (BinaryErode m r b)) ! z ! y) = length (pixels m ! z ! y)"
  by (simp_all add: Subtract_shape BinaryErode_shape)

lemma boundary_nth:
  assumes "z < length (pixels m)" "y < length (pixels m ! z)" "x < length (pixels m ! z ! y)"
  shows "pixels (Subtract m (BinaryErode m r b)) ! z ! y ! x =
     (if pixels m ! z ! y ! x = 1
         \<and> erode_voxel (pixels m) r b (int z) (int y) (int x) 1 = 0
      then 1 else 0)"
  using assms
  by (simp add: Subtract_nth BinaryErode_shape BinaryErode_nth) (simp add: erode_voxel_def)

lemma in_nonzero_boundary:
  "(z, y, x) \<in> set (nonzero (pixels (Subtract m (BinaryErode m r b)))) \<longleftrightarrow>
     z < length (pixels m) \<and> y < length (pixels m ! z) \<and> x < length (pixels m ! z ! y)
     \<and> pixels m ! z ! y ! x = 1 \<and> erode_voxel (pixels m) r b (int z) (int y) (int x) 1 = 0"
  unfolding in_nonzero
  by (auto simp: boundary_shape boundary_nth split: if_splits)

lemma in_set_flatten:
  "v \<in> set (flatten a) \<longleftrightarrow>
     (\<exists>z y x. z < length a \<and> y < length (a ! z) \<and> x < length (a ! z ! y) \<and> a ! z ! y ! x = v)"
proof
  assume "v \<in> set (flatten a)"
  then obtain s r where "s \<in> set a" "r \<in> set s" "v \<in> set r"
    by (auto simp: flatten_def)
  then obtain z y x where "z < length a" "a ! z = s" "y < length s" "s ! y = r"
      "x < length r" "r ! x = v"
    unfolding in_set_conv_nth by blast
  then show "\<exists>z y x. z < length a \<and> y < length (a ! z) \<and> x < length (a ! z ! y) \<and> a ! z ! y ! x = v"
    by blast
next
  assume "\<exists>z y x. z < length a \<and> y < length (a ! z) \<and> x < length (a ! z ! y) \<and> a ! z ! y ! x = v"
  then obtain z y x where h: "z < length a" "y < length (a ! z)" "x < length (a ! z ! y)"
      "a ! z ! y ! x = v"
    by blast
  have "a ! z \<in> set a" "a ! z ! y \<in> set (a ! z)" "v \<in> set (a ! z ! y)"
    using h nth_mem by blast+
  then show "v \<in> set (flatten a)"
    by (auto simp: flatten_def)
qed

lemma nonzero_empty_iff: "nonzero a = [] \<longleftrightarrow> all_zero (flatten a)"
proof -
  have "nonzero a = [] \<longleftrightarrow> (\<forall>z y x. (z, y, x) \<notin> set (nonzero a))"
  proof
    assume "nonzero a = []"
    then show "\<forall>z y x. (z, y, x) \<notin> set (nonzero a)" by simp
  next
    assume none: "\<forall>z y x. (z, y, x) \<notin> set (nonzero a)"
    show "nonzero a = []"
    proof (cases "nonzero a")
      case Nil
      then show ?thesis .
    next
      case (Cons p ps)
      obtain z y x where "p = (z, y, x)" by (cases p) auto
      with Cons have "(z, y, x) \<in> set (nonzero a)" by simp
      with none show ?thesis by blast
    qed
  qed
  also have "\<dots> \<longleftrightarrow> (\<forall>v \<in> set (flatten a). v = 0)"
    unfolding in_nonzero Ball_def in_set_flatten by blast
  finally show ?thesis by (simp add: all_zero_def list_all_iff)
qed

text \<open>
  Claim C7. Whatever the radius and the treatment of the image border, every voxel of
  the boundary (the mask minus its erosion) is a voxel of value 1 of the mask, so the
  non-zero positions of the boundary are among those of the mask; and the boundary of a
  mask that is zero everywhere has no voxel.
\<close>

theorem boundary_subset_of_mask:
  "list_all (\<lambda>(z, y, x). voxel (pixels lImage) (int z) (int y) (int x) = Some 1)
     (nonzero (pixels (Subtract lImage (BinaryErode lImage radius boundaryToForeground))))
 \<and> set (nonzero (pixels (Subtract lImage (BinaryErode lImage radius boundaryToForeground))))
     \<subseteq> set (nonzero (pixels lImage))
 \<and> (all_zero (flatten (pixels lImage)) \<longrightarrow>
     nonzero (pixels (Subtract lImage (BinaryErode lImage radius boundaryToForeground))) = [])"
proof -
  let ?b = "nonzero (pixels (Subtract lImage (BinaryErode lImage radius boundaryToForeground)))"
  have one: "list_all (\<lambda>(z, y, x). voxel (pixels lImage) (int z) (int y) (int x) = Some 1) ?b"
    unfolding list_all_iff using in_nonzero_boundary [of _ _ _ lImage radius boundaryToForeground]
    by (auto simp: voxel_Some)
  have sub: "set ?b \<subseteq> set (nonzero (pixels lImage))"
  proof
    fix p assume p: "p \<in> set ?b"
    obtain z y x where "p = (z, y, x)" by (cases p) auto
    with p have "(z, y, x) \<in> set ?b" by simp
    then have "pixels lImage ! z ! y ! x = 1 \<and> z < length (pixels lImage)
        \<and> y < length (pixels lImage ! z) \<and> x < length (pixels lImage ! z ! y)"
      using in_nonzero_boundary [of z y x lImage radius boundaryToForeground] by blast
    then show "p \<in> set (nonzero (pixels lImage))"
      unfolding \<open>p = (z, y, x)\<close> in_nonzero by simp
  qed
  have "?b = []" if "all_zero (flatten (pixels lImage))"
  proof -
    have "nonzero (pixels lImage) = []" using that by (simp add: nonzero_empty_iff)
    with sub show ?thesis by simp
  qed
  with one sub show ?thesis by blast
qed

theorem boundary_subset_of_mask_witness:
  "list_all (\<lambda>(z, y, x). voxel (pixels (unit_image [[[0, 0], [0, 0]]])) (int z) (int y) (int x) = Some 1)
     (nonzero (pixels (Subtract (unit_image [[[0, 0], [0, 0]]]) (BinaryErode (unit_image [[[0, 0], [0, 0]]]) (1, 1, 0) True))))
 \<and> set (nonzero (pixels (Subtract (unit_image [[[0, 0], [0, 0]]]) (BinaryErode (unit_image [[[0, 0], [0, 0]]]) (1, 1, 0) True))))
     \<subseteq> set (nonzero (pixels (unit_image [[[0, 0], [0, 0]]])))
 \<and> all_zero (flatten (pixels (unit_image [[[0, 0], [0, 0]]])))
 \<and> nonzero (pixels (Subtract (unit_image [[[0, 0], [0, 0]]]) (BinaryErode (unit_image [[[0, 0], [0, 0]]]) (1, 1, 0) True))) = []"
proof -
  have z: "all_zero (flatten (pixels (unit_image [[[0, 0], [0, 0]]])))"
    by (simp add: all_zero_def flatten_def unit_image_def)
  show ?thesis
    using z boundary_subset_of_mask [of "unit_image [[[0, 0], [0, 0]]]" "(1, 1, 0)" True]
    by blast
qed

text \<open>
  The emptiness of the boundary in claim C6 comes from the treatment of the image
  border alone: were the outside of the image taken for background, every non-empty
  mask would have a boundary voxel (the first voxel of the mask in one of its rows).
\<close>

lemma boundary_nonempty_background_border:
  assumes "\<not> all_zero (flatten (pixels (BinaryThreshold img k k 1 0)))"
  shows "nonzero (pixels (Subtract (BinaryThreshold img k k 1 0)
           (BinaryErode (BinaryThreshold img k k 1 0) (1, 1, 0) False))) \<noteq> []"
proof -
  let ?m = "BinaryThreshold img k k 1 0"
  let ?a = "pixels ?m"
  have bin: "v \<in> set (flatten ?a) \<Longrightarrow> v = 0 \<or> v = 1" for v
    by (auto simp: pixels_BinaryThreshold)
  obtain v where "v \<in> set (flatten ?a)" "v \<noteq> 0"
    using assms by (auto simp: all_zero_def list_all_iff)
  then have "1 \<in> set (flatten ?a)" using bin by force
  then obtain z y x where zyx: "z < length ?a" "y < length (?a ! z)" "x < length (?a ! z ! y)"
      "?a ! z ! y ! x = 1"
    unfolding in_set_flatten by blast
  define x0 where "x0 = (LEAST x. x < length (?a ! z ! y) \<and> ?a ! z ! y ! x = 1)"
  have x0: "x0 < length (?a ! z ! y)" "?a ! z ! y ! x0 = 1"
    using LeastI [of "\<lambda>x. x < length (?a ! z ! y) \<and> ?a ! z ! y ! x = 1" x] zyx
    unfolding x0_def by blast+
  have least: "x' < x0 \<Longrightarrow> ?a ! z ! y ! x' \<noteq> 1" for x'
    using not_less_Least [of x' "\<lambda>x. x < length (?a ! z ! y) \<and> ?a ! z ! y ! x = 1"] x0(1)
    unfolding x0_def by auto
  have left: "voxel ?a (int z) (int y) (int x0 - 1) \<noteq> Some 1"
  proof (cases x0)
    case 0
    then show ?thesis by (simp add: voxel_def)
  next
    case (Suc x')
    then have "?a ! z ! y ! x' \<noteq> 1" "x' < length (?a ! z ! y)"
      using least [of x'] x0(1) by simp_all
    then show ?thesis
      using zyx(1,2) Suc by (simp add: voxel_def)
  qed
  have "erode_voxel ?a (1, 1, 0) False (int z) (int y) (int x0) 1 = 0"
    using left
    by (auto simp: erode_voxel_def kernel_offsets_Suc split: option.splits)
  then have "(z, y, x0) \<in> set (nonzero (pixels (Subtract ?m (BinaryErode ?m (1, 1, 0) False))))"
    unfolding in_nonzero_boundary using zyx(1,2) x0 by simp
  then show ?thesis by auto
qed

subsection \<open>The steps of Hausdorff-95\<close>

text \<open>The percentile on the examples of the specification.\<close>

lemma percentile_example: "percentile [1, 2, 3, 4, 5] 95 = Inr (24 / 5)"
  by (simp add: percentile_def percentile_value_def)

lemma percentile_single: "percentile [d] 95 = Inr d"
  by (simp add: percentile_def percentile_value_def)

lemma array_eqI:
  fixes a b :: "'a list list list"
  assumes "length a = length b"
    and "\<And>z. z < length b \<Longrightarrow> length (a ! z) = length (b ! z)"
    and "\<And>z y. z < length b \<Longrightarrow> y < length (b ! z) \<Longrightarrow> length (a ! z ! y) = length (b ! z ! y)"
    and "\<And>z y x. z < length b \<Longrightarrow> y < length (b ! z) \<Longrightarrow> x < length (b ! z ! y) \<Longrightarrow>
           a ! z ! y ! x = b ! z ! y ! x"
  shows "a = b"
  using assms by (intro nth_equalityI) auto

lemma voxel_slice: "z < length a \<Longrightarrow> voxel a (int z) y x = pixel (a ! z) y x"
  by (simp add: voxel_def pixel_def)

lemma erode_voxel_survives:
  assumes "z < length a"
  shows "erode_voxel a (1, 1, 0) True (int z) y x 1 = (if survives (a ! z) y x then 1 else 0)"
  using assms by (simp add: erode_voxel_def kernel_offsets_Suc survives_def voxel_slice)

lemma slice_boundary_shape:
  "length (slice_boundary s) = length s"
  "y < length s \<Longrightarrow> length (slice_boundary s ! y) = length (s ! y)"
  by (simp_all add: slice_boundary_def nth_enumerate_eq)

lemma slice_boundary_nth:
  "y < length s \<Longrightarrow> x < length (s ! y) \<Longrightarrow>
   slice_boundary s ! y ! x = (if s ! y ! x = 1 \<and> \<not> survives s (int y) (int x) then 1 else 0)"
  by (simp add: slice_boundary_def nth_enumerate_eq)

lemma boundary_slicewise:
  "pixels (Subtract m (BinaryErode m (1, 1, 0) True)) = map slice_boundary (pixels m)"
proof (rule array_eqI)
  show "length (pixels (Subtract m (BinaryErode m (1, 1, 0) True))) = length (map slice_boundary (pixels m))"
    by (simp add: boundary_shape)
next
  fix z assume "z < length (map slice_boundary (pixels m))"
  then show "length (pixels (Subtract m (BinaryErode m (1, 1, 0) True)) ! z) = length (map slice_boundary (pixels m) ! z)"
    by (simp add: boundary_shape slice_boundary_shape)
next
  fix z y assume "z < length (map slice_boundary (pixels m))" "y < length (map slice_boundary (pixels m) ! z)"
  then show "length (pixels (Subtract m (BinaryErode m (1, 1, 0) True)) ! z ! y) = length (map slice_boundary (pixels m) ! z ! y)"
    by (simp add: boundary_shape slice_boundary_shape)
next
  fix z y x assume "z < length (map slice_boundary (pixels m))" "y < length (map slice_boundary (pixels m) ! z)"
    "x < length (map slice_boundary (pixels m) ! z ! y)"
  then have h: "z < length (pixels m)" "y < length (pixels m ! z)" "x < length (pixels m ! z ! y)"
    by (simp_all add: slice_boundary_shape)
  show "pixels (Subtract m (BinaryErode m (1, 1, 0) True)) ! z ! y ! x = map slice_boundary (pixels m) ! z ! y ! x"
    using h erode_voxel_survives [of z "pixels m" "int y" "int x"]
    by (simp add: boundary_nth slice_boundary_nth)
qed

lemma euclidean3:
  "euclidean [x, y, z] [x', y', z'] = distance3 (x, y, z) (x', y', z')"
  by (simp add: euclidean_def distance3_def)

lemma getDistances_points:
  assumes "A \<noteq> []" "B \<noteq> []"
  shows "getDistancesFromAtoB (asarray A) (asarray B) = Inr (directed_distances A B)"
proof -
  obtain p ps where A: "A = p # ps" using assms(1) by (cases A) auto
  have rowsA: "list_all (\<lambda>r. length r = 3) (map (\<lambda>(x, y, z). [x, y, z]) A)"
    by (auto simp: list_all_iff)
  have rowsB: "list_all (\<lambda>r. length r = 3) (map (\<lambda>(x, y, z). [x, y, z]) B)"
    by (auto simp: list_all_iff)
  have d: "euclidean (case q of (x, y, z) \<Rightarrow> [x, y, z]) (case p of (x, y, z) \<Rightarrow> [x, y, z])
        = distance3 q p" for p q :: vec3
    by (cases p, cases q) (simp add: euclidean3)
  have len: "length (case p of (x, y, z) \<Rightarrow> [x, y, z]) = 3" for p :: vec3
    by (cases p) simp
  show ?thesis
    using assms rowsA rowsB unfolding A
    by (simp add: getDistancesFromAtoB_def asarray_def directed_distances_def d len comp_def
        list_all_iff)
qed

lemma getDistances_empty:
  assumes "A = [] \<or> B = []"
  shows "getDistancesFromAtoB (asarray A) (asarray B) = Inl ValueError"
proof (cases "A = []")
  case True
  then show ?thesis by (simp add: getDistancesFromAtoB_def asarray_def)
next
  case False
  then obtain p ps where A: "A = p # ps" by (cases A) auto
  have "B = []" using assms False by simp
  then show ?thesis unfolding A by (simp add: getDistancesFromAtoB_def asarray_def)
qed

lemma max_percentile95_Inr:
  assumes "d \<noteq> []" "d' \<noteq> []"
  shows "max_percentile95 d d' = Inr (max (percentile_value d 95) (percentile_value d' 95))"
  using assms by (simp add: max_percentile95_def percentile_def)

lemma directed_distances_empty [simp]: "directed_distances A B = [] \<longleftrightarrow> B = []"
  by (simp add: directed_distances_def)

text \<open>The steps of the source and the steps as the specification words them agree.\<close>

lemma physical_point_eq: "TransformIndexToPhysicalPoint img i = physical_point img i"
  by (cases "origin img"; cases "spacing img"; cases "direction img"; cases i)
     (auto simp: TransformIndexToPhysicalPoint_def physical_point_def rotate_def dot3_def
        scale_index_def Let_def split: prod.splits)

lemma label_mask_eq: "pixels (BinaryThreshold img k k 1 0) = label_mask (pixels img) k"
proof -
  have "(\<lambda>v. if k \<le> v \<and> v \<le> k then 1 else 0) = (\<lambda>v::int. if v = k then 1 else (0::int))"
    by auto
  then show ?thesis by (simp add: BinaryThreshold_def label_mask_def)
qed

lemma concat_map_cong:
  "(\<And>x. x \<in> set xs \<Longrightarrow> f x = g x) \<Longrightarrow> concat (map f xs) = concat (map g xs)"
  by (induction xs) auto

lemma nonzero_upt:
  "nonzero a =
     concat (map (\<lambda>z. concat (map (\<lambda>y. concat (map (\<lambda>x.
         if a ! z ! y ! x \<noteq> 0 then [(z, y, x)] else [])
       [0..<length (a ! z ! y)])) [0..<length (a ! z)])) [0..<length a])"
  unfolding nonzero_def indexed_eq ..

lemma index_rows_upt:
  "index_rows a =
     concat (map (\<lambda>z. concat (map (\<lambda>y. concat (map (\<lambda>x.
         if a ! z ! y ! x \<noteq> 0 then [(int x, int y, int z)] else [])
       [0..<length (a ! z ! y)])) [0..<length (a ! z)])) [0..<length a])"
  unfolding index_rows_def nonzero_upt
  by (simp add: map_concat comp_def if_distrib [of "map _"] cong: if_cong)

lemma index_rows_slice_boundary: "index_rows (map slice_boundary m) = boundary_voxels m"
  unfolding index_rows_upt boundary_voxels_def
  by (auto intro!: concat_map_cong simp: slice_boundary_shape slice_boundary_nth)

lemma percentile_value_interpolated:
  assumes "d \<noteq> []"
  shows "percentile_value d 95 = interpolated_percentile d 95"
proof -
  define s where "s = sort d"
  define a where "a = 95 * (length d - 1)"
  define lo where "lo = a div 100"
  define m where "m = a mod 100"
  have n1: "1 \<le> length d" using assms by (cases d) simp_all
  have a_eq: "a = 100 * lo + m" by (simp add: lo_def m_def)
  have pos: "95 / 100 * (real (length d) - 1) = real a / 100"
    using n1 by (simp add: a_def of_nat_diff)
  have fl: "\<lfloor>real a / 100\<rfloor> = int lo"
    using floor_divide_of_nat_eq [of a 100, where ?'a = real] by (simp add: lo_def)
  have "real a = 100 * real lo + real m" using a_eq by simp
  then have frac: "real a / 100 - real lo = real m / 100"
    by (simp add: field_simps)
  have L: "percentile_value d 95 =
      s ! lo + real m / 100 * (s ! min (lo + 1) (length d - 1) - s ! lo)"
    unfolding percentile_value_def Let_def s_def lo_def m_def a_def ..
  have R: "interpolated_percentile d 95 =
      s ! lo + real m / 100 * (s ! nat \<lceil>real a / 100\<rceil> - s ! lo)"
    unfolding interpolated_percentile_def Let_def pos s_def [symmetric] fl
    using frac by simp
  show ?thesis
  proof (cases "m = 0")
    case True
    then show ?thesis unfolding L R by simp
  next
    case False
    have mlt: "m < 100" by (simp add: m_def)
    have "real a = 100 * real lo + real m" using a_eq by simp
    then have "real lo < real a / 100" "real a / 100 \<le> real lo + 1"
      using False mlt by (simp_all add: field_simps)
    then have ce: "\<lceil>real a / 100\<rceil> = int lo + 1"
      by (simp add: ceiling_eq_iff)
    have "length d - 1 \<noteq> 0" using False by (auto simp: m_def a_def)
    then have "a < 100 * (length d - 1)" by (simp add: a_def)
    then have "lo < length d - 1" by (simp add: lo_def div_less_iff_less_mult)
    then have hi: "min (lo + 1) (length d - 1) = lo + 1" by simp
    have "nat \<lceil>real a / 100\<rceil> = lo + 1" unfolding ce by simp
    then show ?thesis unfolding L R hi by simp
  qed
qed

lemma boundary_points_eq:
  "map (TransformIndexToPhysicalPoint img)
     (index_rows (pixels (Subtract (BinaryThreshold img k k 1 0)
        (BinaryErode (BinaryThreshold img k k 1 0) (1, 1, 0) True)))) = boundary_points img k"
proof -
  have "TransformIndexToPhysicalPoint img = physical_point img"
    by (rule ext) (rule physical_point_eq)
  then show ?thesis
    by (simp only: boundary_slicewise label_mask_eq index_rows_slice_boundary boundary_points_def)
qed

text \<open>
  For a label that occurs in both images, the loop body of \<^verbatim>\<open>getHausdorff\<close> takes the
  boundary voxels of the two masks slice by slice, maps them to physical coordinates,
  takes the nearest-neighbour distances in both directions and the 95th percentile of
  each, and stores the larger one; when a boundary has no voxel, the search raises
  \<^verbatim>\<open>ValueError\<close> instead.
\<close>

lemma hausdorff95_steps:
  assumes "k \<in> set (flatten (pixels testImage))" and "k \<in> set (flatten (pixels resultImage))"
  shows "getHausdorff_body testImage resultImage k h =
          (let testPoints = boundary_points testImage k;
               resultPoints = boundary_points resultImage k
           in if testPoints = [] \<or> resultPoints = [] then Inl ValueError
              else Inr (dict_set h k (PyFloat (Finite
                     (max (interpolated_percentile (directed_distances testPoints resultPoints) 95)
                          (interpolated_percentile (directed_distances resultPoints testPoints) 95))))))"
proof -
  let ?lt = "BinaryThreshold testImage k k 1 0"
  let ?lr = "BinaryThreshold resultImage k k 1 0"
  have sums: "GetSum ?lt \<noteq> 0" "GetSum ?lr \<noteq> 0"
    using assms by (simp_all add: GetSum_BinaryThreshold count_list_0_iff)
  have body: "getHausdorff_body testImage resultImage k h =
      (case getDistancesFromAtoB (asarray (boundary_points testImage k))
              (asarray (boundary_points resultImage k)) of
         Inl e \<Rightarrow> Inl e
       | Inr dTestToResult \<Rightarrow>
           (case getDistancesFromAtoB (asarray (boundary_points resultImage k))
                   (asarray (boundary_points testImage k)) of
              Inl e \<Rightarrow> Inl e
            | Inr dResultToTest \<Rightarrow>
                (case max_percentile95 dTestToResult dResultToTest of
                   Inl e \<Rightarrow> Inl e
                 | Inr h' \<Rightarrow> Inr (dict_set h k (PyFloat (Finite h'))))))"
    unfolding getHausdorff_body_def Let_def boundary_points_eq using sums by simp
  show ?thesis
  proof (cases "boundary_points testImage k = [] \<or> boundary_points resultImage k = []")
    case True
    then show ?thesis
      unfolding body Let_def by (simp add: getDistances_empty)
  next
    case False
    then have ne: "boundary_points testImage k \<noteq> []" "boundary_points resultImage k \<noteq> []"
      by simp_all
    then have ne': "directed_distances (boundary_points testImage k) (boundary_points resultImage k) \<noteq> []"
      "directed_distances (boundary_points resultImage k) (boundary_points testImage k) \<noteq> []"
      by simp_all
    show ?thesis
      unfolding body Let_def
      using ne ne'
      by (simp add: getDistances_points max_percentile95_Inr percentile_value_interpolated)
  qed
qed

text \<open>
  An instance with a transform that is not the identity and two distances in each
  direction: the directed distances are \<open>[2, 4]\<close> and \<open>[2, 6]\<close>, their 95th percentiles
  3.9 and 5.8.
\<close>

lemma sqrt_squares: "sqrt 4 = 2" "sqrt 16 = 4" "sqrt 36 = 6" "sqrt 64 = 8"
  by (rule real_sqrt_unique; simp)+

lemma hausdorff95_example:
  "getHausdorff_body (skew_image [[[1, 0, 0, 0, 0, 1]]]) (skew_image [[[0, 1, 1, 0, 0, 0]]]) 1 []
     = Inr [(1, PyFloat (Finite (29 / 5)))]"
  by (simp add: getHausdorff_body_def GetSum_def flatten_def
      BinaryThreshold_def skew_image_def BinaryErode_def erode_voxel_def kernel_offsets_Suc
      voxel_def Subtract_def index_rows_def nonzero_def asarray_def getDistancesFromAtoB_def
      TransformIndexToPhysicalPoint_def euclidean_def max_percentile95_def percentile_def
      percentile_value_def sqrt_squares)

text \<open>
  Claim C4 on a prediction that is all background: at label 0 both masks are non-empty
  (three voxels of the ground truth, all four of the prediction), but the mask of the
  prediction fills its slice, its erosion removes nothing and its boundary is empty. No
  percentile is taken and nothing is stored: the loop body raises \<^verbatim>\<open>ValueError\<close>, and so
  does \<^verbatim>\<open>getHausdorff\<close>.
\<close>

theorem hausdorff_raises_on_background_prediction:
  "GetSum (BinaryThreshold (unit_image [[[0, 1], [0, 0]]]) 0 0 1 0) = 3
 \<and> GetSum (BinaryThreshold (unit_image [[[0, 0], [0, 0]]]) 0 0 1 0) = 4
 \<and> getHausdorff_body (unit_image [[[0, 1], [0, 0]]]) (unit_image [[[0, 0], [0, 0]]]) 0 []
      = Inl ValueError
 \<and> getHausdorff (unit_image [[[0, 1], [0, 0]]]) (unit_image [[[0, 0], [0, 0]]]) = Inl ValueError"
  by (simp add: getHausdorff_def labels_keys_def getHausdorff_body_def GetSum_def flatten_def
      BinaryThreshold_def unit_image_def BinaryErode_def erode_voxel_def kernel_offsets_Suc
      voxel_def Subtract_def index_rows_def nonzero_def asarray_def getDistancesFromAtoB_def
      TransformIndexToPhysicalPoint_def)

end
